theory Spec2Isabelle
  imports Complex_Main "HOL-Library.Multiset"
begin

section \<open>Python values\<close>

text \<open>
  A Python float is a finite number, one of the two infinities, or NaN. Finite values are
  idealised as reals: rounding error and overflow of the binary format are not modelled.
  Comparisons follow IEEE 754: every comparison with NaN is false.
\<close>

datatype pyfloat = Fin real | PInf | NInf | NaN

fun fle :: "pyfloat \<Rightarrow> pyfloat \<Rightarrow> bool" where
  "fle NaN _ = False"
| "fle _ NaN = False"
| "fle NInf _ = True"
| "fle _ PInf = True"
| "fle PInf _ = False"
| "fle _ NInf = False"
| "fle (Fin a) (Fin b) = (a \<le> b)"

fun flt :: "pyfloat \<Rightarrow> pyfloat \<Rightarrow> bool" where
  "flt NaN _ = False"
| "flt _ NaN = False"
| "flt PInf _ = False"
| "flt _ NInf = False"
| "flt NInf _ = True"
| "flt _ PInf = True"
| "flt (Fin a) (Fin b) = (a < b)"

fun fadd :: "pyfloat \<Rightarrow> pyfloat \<Rightarrow> pyfloat" where
  "fadd NaN _ = NaN"
| "fadd _ NaN = NaN"
| "fadd PInf NInf = NaN"
| "fadd NInf PInf = NaN"
| "fadd PInf _ = PInf"
| "fadd _ PInf = PInf"
| "fadd NInf _ = NInf"
| "fadd _ NInf = NInf"
| "fadd (Fin a) (Fin b) = Fin (a + b)"

fun fneg :: "pyfloat \<Rightarrow> pyfloat" where
  "fneg NaN = NaN"
| "fneg PInf = NInf"
| "fneg NInf = PInf"
| "fneg (Fin a) = Fin (- a)"

definition fsub :: "pyfloat \<Rightarrow> pyfloat \<Rightarrow> pyfloat" where
  "fsub x y = fadd x (fneg y)"

fun fabs :: "pyfloat \<Rightarrow> pyfloat" where
  "fabs NaN = NaN"
| "fabs PInf = PInf"
| "fabs NInf = PInf"
| "fabs (Fin a) = Fin \<bar>a\<bar>"

text \<open>Division of a float by a finite constant \<open>c\<close>; every use has \<open>c > 0\<close>.\<close>

fun fdiv :: "pyfloat \<Rightarrow> real \<Rightarrow> pyfloat" where
  "fdiv NaN c = NaN"
| "fdiv PInf c = (if 0 < c then PInf else NInf)"
| "fdiv NInf c = (if 0 < c then NInf else PInf)"
| "fdiv (Fin a) c = Fin (a / c)"

text \<open>
  \<open>round(x, n)\<close> on a float: the nearest multiple of \<open>10^-n\<close>, a tie going to the even
  neighbour; infinities and NaN round to themselves.
\<close>

definition round_half_even :: "real \<Rightarrow> int" where
  "round_half_even x =
     (let f = \<lfloor>x\<rfloor>; r = x - of_int f
      in if r < 1 / 2 then f else if 1 / 2 < r then f + 1 else if even f then f else f + 1)"

fun py_round :: "pyfloat \<Rightarrow> nat \<Rightarrow> pyfloat" where
  "py_round (Fin a) n = Fin (of_int (round_half_even (a * 10 ^ n)) / 10 ^ n)"
| "py_round x n = x"

text \<open>
  A value held in a table cell or under a dictionary key: missing (\<open>None\<close>), a number, or
  text. \<open>Str\<close> holds text that is not a numeral, so \<open>float()\<close> rejects it; pandas also
  counts a NaN number as missing.
\<close>

datatype cell = Null | Num pyfloat | Str string

datatype py_error = ValueError string | KeyError string | TypeError string

fun ebind :: "'e + 'a \<Rightarrow> ('a \<Rightarrow> 'e + 'b) \<Rightarrow> 'e + 'b" where
  "ebind (Inl e) f = Inl e"
| "ebind (Inr x) f = f x"

definition isna :: "cell \<Rightarrow> bool" where
  "isna c = (c = Null \<or> c = Num NaN)"

definition py_repr_str :: "string \<Rightarrow> string" where
  "py_repr_str s = [CHR 0x27] @ s @ [CHR 0x27]"

fun join :: "string \<Rightarrow> string list \<Rightarrow> string" where
  "join sep [] = []"
| "join sep [x] = x"
| "join sep (x # y # ys) = x @ sep @ join sep (y # ys)"

definition py_repr_list :: "string list \<Rightarrow> string" where
  "py_repr_list xs = ''['' @ join '', '' (map py_repr_str xs) @ '']''"

fun py_float :: "cell \<Rightarrow> py_error + pyfloat" where
  "py_float (Num x) = Inr x"
| "py_float (Str s) = Inl (ValueError (''could not convert string to float: '' @ py_repr_str s))"
| "py_float Null = Inl (TypeError ''float() argument must be a string or a real number'')"

text \<open>
  The float arithmetic and the functions of the \<open>math\<close> module the code calls. \<open>math.sin\<close>
  and \<open>math.cos\<close> raise on an infinity, \<open>math.sqrt\<close> on a negative number; a cell that is
  not a number cannot be subtracted or converted to radians.
\<close>

fun fmul :: "pyfloat \<Rightarrow> pyfloat \<Rightarrow> pyfloat" where
  "fmul NaN _ = NaN"
| "fmul _ NaN = NaN"
| "fmul (Fin a) (Fin b) = Fin (a * b)"
| "fmul (Fin a) PInf = (if a = 0 then NaN else if 0 < a then PInf else NInf)"
| "fmul (Fin a) NInf = (if a = 0 then NaN else if 0 < a then NInf else PInf)"
| "fmul PInf (Fin b) = (if b = 0 then NaN else if 0 < b then PInf else NInf)"
| "fmul NInf (Fin b) = (if b = 0 then NaN else if 0 < b then NInf else PInf)"
| "fmul PInf PInf = PInf"
| "fmul NInf NInf = PInf"
| "fmul PInf NInf = NInf"
| "fmul NInf PInf = NInf"

fun math_radians :: "pyfloat \<Rightarrow> pyfloat" where
  "math_radians (Fin x) = Fin (x * pi / 180)"
| "math_radians x = x"

fun math_sin :: "pyfloat \<Rightarrow> py_error + pyfloat" where
  "math_sin (Fin x) = Inr (Fin (sin x))"
| "math_sin NaN = Inr NaN"
| "math_sin x = Inl (ValueError ''math domain error'')"

fun math_cos :: "pyfloat \<Rightarrow> py_error + pyfloat" where
  "math_cos (Fin x) = Inr (Fin (cos x))"
| "math_cos NaN = Inr NaN"
| "math_cos x = Inl (ValueError ''math domain error'')"

fun math_sqrt :: "pyfloat \<Rightarrow> py_error + pyfloat" where
  "math_sqrt (Fin x) =
     (if x < 0 then Inl (ValueError ''math domain error'') else Inr (Fin (sqrt x)))"
| "math_sqrt NaN = Inr NaN"
| "math_sqrt PInf = Inr PInf"
| "math_sqrt NInf = Inl (ValueError ''math domain error'')"

definition atan2 :: "real \<Rightarrow> real \<Rightarrow> real" where
  "atan2 y x =
     (if 0 < x then arctan (y / x)
      else if x < 0 then (if 0 \<le> y then arctan (y / x) + pi else arctan (y / x) - pi)
      else if 0 < y then pi / 2
      else if y < 0 then - (pi / 2)
      else 0)"

fun math_atan2 :: "pyfloat \<Rightarrow> pyfloat \<Rightarrow> pyfloat" where
  "math_atan2 NaN _ = NaN"
| "math_atan2 _ NaN = NaN"
| "math_atan2 (Fin y) (Fin x) = Fin (atan2 y x)"
| "math_atan2 (Fin y) PInf = Fin 0"
| "math_atan2 (Fin y) NInf = (if 0 \<le> y then Fin pi else Fin (- pi))"
| "math_atan2 PInf (Fin x) = Fin (pi / 2)"
| "math_atan2 NInf (Fin x) = Fin (- (pi / 2))"
| "math_atan2 PInf PInf = Fin (pi / 4)"
| "math_atan2 PInf NInf = Fin (3 * pi / 4)"
| "math_atan2 NInf PInf = Fin (- (pi / 4))"
| "math_atan2 NInf NInf = Fin (- (3 * pi / 4))"

fun cell_sub :: "cell \<Rightarrow> cell \<Rightarrow> py_error + pyfloat" where
  "cell_sub (Num x) (Num y) = Inr (fsub x y)"
| "cell_sub _ _ = Inl (TypeError ''unsupported operand type(s) for -'')"

fun cell_real :: "cell \<Rightarrow> py_error + pyfloat" where
  "cell_real (Num x) = Inr x"
| "cell_real _ = Inl (TypeError ''must be real number'')"

definition square :: "pyfloat \<Rightarrow> pyfloat" where
  "square x = fmul x x"

fun math_degrees :: "pyfloat \<Rightarrow> pyfloat" where
  "math_degrees (Fin x) = Fin (x * 180 / pi)"
| "math_degrees x = x"

text \<open>\<open>x % m\<close> for a finite \<open>m > 0\<close>: the remainder has the sign of \<open>m\<close>; an infinity gives NaN.\<close>

fun fmod :: "pyfloat \<Rightarrow> real \<Rightarrow> pyfloat" where
  "fmod (Fin a) m = Fin (a - m * of_int \<lfloor>a / m\<rfloor>)"
| "fmod x m = NaN"

text \<open>Python's \<open>==\<close> on cell values: NaN is not equal to anything, itself included.\<close>

definition cell_eq :: "cell \<Rightarrow> cell \<Rightarrow> bool" where
  "cell_eq a b = (a = b \<and> a \<noteq> Num NaN)"

text \<open>
  A stable sort by a key that is compared with \<open><\<close> only, as \<open>list.sort(key=...)\<close> is: each
  element is inserted after the elements whose key is not greater. For keys that \<open><\<close>
  orders totally this is the result of Python's sort.
\<close>

fun insort_by :: "('k \<Rightarrow> 'k \<Rightarrow> bool) \<Rightarrow> ('a \<Rightarrow> 'k) \<Rightarrow> 'a \<Rightarrow> 'a list \<Rightarrow> 'a list" where
  "insort_by lt key x [] = [x]"
| "insort_by lt key x (y # ys) =
     (if lt (key x) (key y) then x # y # ys else y # insort_by lt key x ys)"

definition sort_by :: "('k \<Rightarrow> 'k \<Rightarrow> bool) \<Rightarrow> ('a \<Rightarrow> 'k) \<Rightarrow> 'a list \<Rightarrow> 'a list" where
  "sort_by lt key xs = foldl (\<lambda>sorted x. insort_by lt key x sorted) [] xs"

text \<open>
  A row (a pandas Series, or a dictionary) is an association list from names to cells.
  \<open>row_item\<close> is \<open>r[k]\<close>, \<open>row_get\<close> is \<open>r.get(k, d)\<close>.
\<close>

type_synonym row = "(string \<times> cell) list"

definition row_item :: "row \<Rightarrow> string \<Rightarrow> py_error + cell" where
  "row_item r k = (case map_of r k of None \<Rightarrow> Inl (KeyError k) | Some c \<Rightarrow> Inr c)"

definition row_get :: "row \<Rightarrow> string \<Rightarrow> cell \<Rightarrow> cell" where
  "row_get r k d = (case map_of r k of None \<Rightarrow> d | Some c \<Rightarrow> c)"

text \<open>
  A DataFrame: its column names and its rows, each row holding a cell for every column.
  \<open>df.empty\<close> is true when either axis has length zero.
\<close>

record dataframe =
  columns :: "string list"
  rows :: "row list"

definition df_empty :: "dataframe \<Rightarrow> bool" where
  "df_empty df = (columns df = [] \<or> rows df = [])"

definition complete_row :: "string list \<Rightarrow> row \<Rightarrow> bool" where
  "complete_row subset_cols r =
     list_all (\<lambda>k. case map_of r k of None \<Rightarrow> False | Some c \<Rightarrow> \<not> isna c) subset_cols"

text \<open>\<open>df.dropna(subset=...)\<close>: a KeyError when a named column is not in the frame.\<close>

definition dropna :: "string list \<Rightarrow> dataframe \<Rightarrow> py_error + dataframe" where
  "dropna subset_cols df =
     (case filter (\<lambda>k. k \<notin> set (columns df)) subset_cols of
        [] \<Rightarrow> Inr (df\<lparr>rows := filter (complete_row subset_cols) (rows df)\<rparr>)
      | missing \<Rightarrow> Inl (KeyError (py_repr_list missing)))"

section \<open>Collision detection (collision\_module/collision\_detection.py)\<close>

text \<open>What the functions print, one event per \<open>print\<close> call with the values it formats.\<close>

datatype log_event =
    Print_distance_error py_error
  | Print_empty_warning
  | Print_processing nat nat
  | Print_pair_error cell cell py_error
  | Print_complete nat nat

text \<open>
  \<open>geodesic(point1, point2).kilometers\<close> of the geopy library, which is not part of the
  repository: a parameter of the model, returning the distance or the exception it raises.
\<close>

type_synonym geodesic = "cell \<times> cell \<Rightarrow> cell \<times> cell \<Rightarrow> py_error + pyfloat"

definition calculate_horizontal_distance ::
  "geodesic \<Rightarrow> cell \<Rightarrow> cell \<Rightarrow> cell \<Rightarrow> cell \<Rightarrow> log_event list \<times> pyfloat" where
  "calculate_horizontal_distance geodesic lat1 lon1 lat2 lon2 =
     (let point1 = (lat1, lon1); point2 = (lat2, lon2)
      in case geodesic point1 point2 of
           Inr distance \<Rightarrow> ([], distance)
         | Inl e \<Rightarrow> ([Print_distance_error e], PInf))"

definition calculate_vertical_distance :: "pyfloat \<Rightarrow> pyfloat \<Rightarrow> pyfloat" where
  "calculate_vertical_distance altitude1 altitude2 = fabs (fsub altitude1 altitude2)"

record collision_alert =
  drone_id :: cell
  plane_icao24 :: cell
  horizontal_distance :: pyfloat
  vertical_distance :: pyfloat
  drone_lat :: cell
  drone_lon :: cell
  plane_lat :: cell
  plane_lon :: cell
  drone_altitude :: pyfloat
  plane_altitude :: pyfloat
  callsign :: cell
  drone_speed :: cell
  plane_velocity :: cell

text \<open>The alert dictionary of one pair, its items evaluated in the order the source writes them.\<close>

definition make_alert ::
  "row \<Rightarrow> row \<Rightarrow> pyfloat \<Rightarrow> pyfloat \<Rightarrow> pyfloat \<Rightarrow> pyfloat \<Rightarrow> py_error + collision_alert" where
  "make_alert plane drone h_distance v_distance plane_altitude_m drone_altitude_m =
     ebind (row_item drone ''drone_id'') (\<lambda>v_drone_id.
     ebind (row_item plane ''icao24'') (\<lambda>v_icao24.
     ebind (row_item drone ''latitude'') (\<lambda>v_drone_lat.
     ebind (row_item drone ''longitude'') (\<lambda>v_drone_lon.
     ebind (row_item plane ''latitude'') (\<lambda>v_plane_lat.
     ebind (row_item plane ''longitude'') (\<lambda>v_plane_lon.
       Inr \<lparr>drone_id = v_drone_id,
            plane_icao24 = v_icao24,
            horizontal_distance = py_round h_distance 3,
            vertical_distance = py_round v_distance 2,
            drone_lat = v_drone_lat,
            drone_lon = v_drone_lon,
            plane_lat = v_plane_lat,
            plane_lon = v_plane_lon,
            drone_altitude = drone_altitude_m,
            plane_altitude = plane_altitude_m,
            callsign = row_get plane ''callsign'' (Str ''N/A''),
            drone_speed = row_get drone ''speed'' (Str ''N/A''),
            plane_velocity = row_get plane ''velocity'' (Str ''N/A'')\<rparr>))))))"

text \<open>
  The body of the \<open>try\<close> for one pair: what it prints, and either the exception it raises,
  or the alert it appends (\<open>None\<close> when the pair is outside a threshold).
\<close>

definition try_pair ::
  "geodesic \<Rightarrow> pyfloat \<Rightarrow> pyfloat \<Rightarrow> row \<Rightarrow> row
     \<Rightarrow> log_event list \<times> (py_error + collision_alert option)" where
  "try_pair geodesic h_threshold v_threshold plane drone =
     (case ebind (row_item plane ''latitude'') (\<lambda>plat.
           ebind (row_item plane ''longitude'') (\<lambda>plon.
           ebind (row_item drone ''latitude'') (\<lambda>dlat.
           ebind (row_item drone ''longitude'') (\<lambda>dlon. Inr (plat, plon, dlat, dlon))))) of
        Inl e \<Rightarrow> ([], Inl e)
      | Inr (plat, plon, dlat, dlon) \<Rightarrow>
          (let (out, h_distance) = calculate_horizontal_distance geodesic plat plon dlat dlon
           in (out,
               ebind (ebind (row_item plane ''baro_altitude'') py_float) (\<lambda>plane_altitude_m.
               ebind (ebind (row_item drone ''altitude'') py_float) (\<lambda>drone_altitude_m.
                 (let v_distance = calculate_vertical_distance plane_altitude_m drone_altitude_m
                  in if fle h_distance h_threshold \<and> fle v_distance v_threshold
                     then ebind (make_alert plane drone h_distance v_distance
                                   plane_altitude_m drone_altitude_m) (\<lambda>alert. Inr (Some alert))
                     else Inr None))))))"

record scan_state =
  alerts :: "collision_alert list"
  collision_count :: nat
  printed :: "log_event list"

text \<open>One pass of the inner loop body, with the \<open>except\<close> branch that skips a failing pair.\<close>

definition pair_step ::
  "geodesic \<Rightarrow> pyfloat \<Rightarrow> pyfloat \<Rightarrow> row \<Rightarrow> row \<Rightarrow> scan_state \<Rightarrow> scan_state" where
  "pair_step geodesic h_threshold v_threshold plane drone s =
     (case try_pair geodesic h_threshold v_threshold plane drone of
        (out, Inr (Some alert)) \<Rightarrow>
          s\<lparr>alerts := alerts s @ [alert], collision_count := collision_count s + 1,
            printed := printed s @ out\<rparr>
      | (out, Inr None) \<Rightarrow> s\<lparr>printed := printed s @ out\<rparr>
      | (out, Inl e) \<Rightarrow>
          s\<lparr>printed := printed s @ out @
              [Print_pair_error (row_get plane ''icao24'' (Str ''Unknown''))
                 (row_get drone ''drone_id'' (Str ''Unknown'')) e]\<rparr>)"

fun scan_drones ::
  "geodesic \<Rightarrow> pyfloat \<Rightarrow> pyfloat \<Rightarrow> row \<Rightarrow> row list \<Rightarrow> scan_state \<Rightarrow> scan_state" where
  "scan_drones geodesic h_threshold v_threshold plane [] s = s"
| "scan_drones geodesic h_threshold v_threshold plane (drone # drones) s =
     scan_drones geodesic h_threshold v_threshold plane drones
       (pair_step geodesic h_threshold v_threshold plane drone s)"

fun scan_planes ::
  "geodesic \<Rightarrow> pyfloat \<Rightarrow> pyfloat \<Rightarrow> row list \<Rightarrow> row list \<Rightarrow> scan_state \<Rightarrow> scan_state" where
  "scan_planes geodesic h_threshold v_threshold [] drones s = s"
| "scan_planes geodesic h_threshold v_threshold (plane # planes) drones s =
     scan_planes geodesic h_threshold v_threshold planes drones
       (scan_drones geodesic h_threshold v_threshold plane drones s)"

definition required_plane_cols :: "string list" where
  "required_plane_cols = [''icao24'', ''latitude'', ''longitude'', ''baro_altitude'']"

definition required_drone_cols :: "string list" where
  "required_drone_cols = [''drone_id'', ''latitude'', ''longitude'', ''altitude'']"

definition missing_cols :: "string list \<Rightarrow> dataframe \<Rightarrow> string list" where
  "missing_cols required df = filter (\<lambda>col. col \<notin> set (columns df)) required"

definition detect_collisions ::
  "geodesic \<Rightarrow> dataframe \<Rightarrow> dataframe \<Rightarrow> pyfloat \<Rightarrow> pyfloat
     \<Rightarrow> log_event list \<times> (py_error + collision_alert list)" where
  "detect_collisions geodesic planes_df drones_df h_threshold v_threshold =
     (if df_empty planes_df \<or> df_empty drones_df then ([Print_empty_warning], Inr [])
      else case missing_cols required_plane_cols planes_df of
        c # cs \<Rightarrow>
          ([], Inl (ValueError (''Missing required plane columns: '' @ py_repr_list (c # cs))))
      | [] \<Rightarrow>
      (case missing_cols required_drone_cols drones_df of
        c # cs \<Rightarrow>
          ([], Inl (ValueError (''Missing required drone columns: '' @ py_repr_list (c # cs))))
      | [] \<Rightarrow>
      (case dropna [''icao24'', ''latitude'', ''longitude'', ''baro_altitude''] planes_df of
        Inl e \<Rightarrow> ([], Inl e)
      | Inr planes_clean \<Rightarrow>
      (case dropna [''drone_id'', ''latitude'', ''longitude'', ''altitude''] drones_df of
        Inl e \<Rightarrow> ([], Inl e)
      | Inr drones_clean \<Rightarrow>
         (let total_pairs = length (rows planes_clean) * length (rows drones_clean);
              s = scan_planes geodesic h_threshold v_threshold
                    (rows planes_clean) (rows drones_clean)
                    \<lparr>alerts = [], collision_count = 0,
                     printed = [Print_processing (length (rows planes_clean))
                                 (length (rows drones_clean))]\<rparr>
          in (printed s @ [Print_complete (collision_count s) total_pairs],
              Inr (alerts s)))))))"

text \<open>
  The pandas reductions \<open>get_collision_summary\<close> uses: \<open>nunique\<close> counts the distinct
  values that are not missing; \<open>mean\<close> and \<open>min\<close> skip NaN and are NaN when nothing is left.
\<close>

definition nunique :: "cell list \<Rightarrow> nat" where
  "nunique xs = length (remdups (filter (\<lambda>c. \<not> isna c) xs))"

definition series_mean :: "pyfloat list \<Rightarrow> pyfloat" where
  "series_mean xs =
     (case filter (\<lambda>x. x \<noteq> NaN) xs of
        [] \<Rightarrow> NaN
      | y # ys \<Rightarrow> fdiv (foldl fadd (Fin 0) (y # ys)) (real (length (y # ys))))"

definition series_min :: "pyfloat list \<Rightarrow> pyfloat" where
  "series_min xs =
     (case filter (\<lambda>x. x \<noteq> NaN) xs of
        [] \<Rightarrow> NaN
      | y # ys \<Rightarrow> foldl (\<lambda>m x. if flt x m then x else m) y ys)"

record collision_summary =
  total_alerts :: nat
  unique_drones :: nat
  unique_planes :: nat
  avg_horizontal_distance :: pyfloat
  avg_vertical_distance :: pyfloat
  min_horizontal_distance :: pyfloat
  min_vertical_distance :: pyfloat

definition get_collision_summary :: "collision_alert list \<Rightarrow> collision_summary" where
  "get_collision_summary alert_list =
     (if alert_list = [] then
        \<lparr>total_alerts = 0, unique_drones = 0, unique_planes = 0,
         avg_horizontal_distance = Fin 0, avg_vertical_distance = Fin 0,
         min_horizontal_distance = Fin 0, min_vertical_distance = Fin 0\<rparr>
      else
        \<lparr>total_alerts = length alert_list,
         unique_drones = nunique (map drone_id alert_list),
         unique_planes = nunique (map plane_icao24 alert_list),
         avg_horizontal_distance = py_round (series_mean (map horizontal_distance alert_list)) 3,
         avg_vertical_distance = py_round (series_mean (map vertical_distance alert_list)) 2,
         min_horizontal_distance = py_round (series_min (map horizontal_distance alert_list)) 3,
         min_vertical_distance = py_round (series_min (map vertical_distance alert_list)) 2\<rparr>)"

subsection \<open>The distances and the alert of one pair\<close>

text \<open>
  The quantities the specification compares, read off a pair of rows and written without
  the detector's own functions. The horizontal distance is the geodesic distance of the
  two positions, infinite where the geodesic routine fails. The vertical distance is the
  absolute difference of the two altitudes, defined when both are numbers: \<open>|a - b|\<close> for
  finite altitudes, infinite when exactly one is infinite or the two are opposite
  infinities, and NaN when one is NaN or both are the same infinity. A pair is a near miss
  when both distances are at most their thresholds.
\<close>

definition horizontal_of :: "geodesic \<Rightarrow> row \<Rightarrow> row \<Rightarrow> pyfloat" where
  "horizontal_of g plane drone =
     (case g (row_get plane ''latitude'' Null, row_get plane ''longitude'' Null)
             (row_get drone ''latitude'' Null, row_get drone ''longitude'' Null) of
        Inr distance \<Rightarrow> distance
      | Inl e \<Rightarrow> PInf)"

fun cell_number :: "cell \<Rightarrow> pyfloat option" where
  "cell_number (Num x) = Some x"
| "cell_number c = None"

definition altitude_of :: "row \<Rightarrow> string \<Rightarrow> pyfloat option" where
  "altitude_of r k = cell_number (row_get r k Null)"

fun abs_difference :: "pyfloat \<Rightarrow> pyfloat \<Rightarrow> pyfloat" where
  "abs_difference NaN b = NaN"
| "abs_difference a NaN = NaN"
| "abs_difference (Fin a) (Fin b) = Fin \<bar>a - b\<bar>"
| "abs_difference PInf PInf = NaN"
| "abs_difference NInf NInf = NaN"
| "abs_difference a b = PInf"

definition vertical_of :: "row \<Rightarrow> row \<Rightarrow> pyfloat option" where
  "vertical_of plane drone =
     (case (altitude_of plane ''baro_altitude'', altitude_of drone ''altitude'') of
        (Some a, Some b) \<Rightarrow> Some (abs_difference a b)
      | _ \<Rightarrow> None)"

definition near_miss :: "geodesic \<Rightarrow> pyfloat \<Rightarrow> pyfloat \<Rightarrow> row \<Rightarrow> row \<Rightarrow> bool" where
  "near_miss g ht vt plane drone =
     (case vertical_of plane drone of
        Some v \<Rightarrow> fle (horizontal_of g plane drone) ht \<and> fle v vt
      | None \<Rightarrow> False)"

definition or_nan :: "pyfloat option \<Rightarrow> pyfloat" where
  "or_nan x = (case x of Some v \<Rightarrow> v | None \<Rightarrow> NaN)"

definition alert_of :: "geodesic \<Rightarrow> row \<Rightarrow> row \<Rightarrow> collision_alert" where
  "alert_of g plane drone =
     \<lparr>drone_id = row_get drone ''drone_id'' Null,
      plane_icao24 = row_get plane ''icao24'' Null,
      horizontal_distance = py_round (horizontal_of g plane drone) 3,
      vertical_distance = py_round (or_nan (vertical_of plane drone)) 2,
      drone_lat = row_get drone ''latitude'' Null,
      drone_lon = row_get drone ''longitude'' Null,
      plane_lat = row_get plane ''latitude'' Null,
      plane_lon = row_get plane ''longitude'' Null,
      drone_altitude = or_nan (altitude_of drone ''altitude''),
      plane_altitude = or_nan (altitude_of plane ''baro_altitude''),
      callsign = row_get plane ''callsign'' (Str ''N/A''),
      drone_speed = row_get drone ''speed'' (Str ''N/A''),
      plane_velocity = row_get plane ''velocity'' (Str ''N/A'')\<rparr>"

definition pair_alerts :: "geodesic \<Rightarrow> pyfloat \<Rightarrow> pyfloat \<Rightarrow> row \<Rightarrow> row \<Rightarrow> collision_alert list" where
  "pair_alerts g ht vt plane drone =
     (case snd (try_pair g ht vt plane drone) of Inr (Some a) \<Rightarrow> [a] | _ \<Rightarrow> [])"

text \<open>The rows \<open>dropna\<close> keeps: those with a cell that is not missing in every mandatory column.\<close>

definition kept_planes :: "dataframe \<Rightarrow> row list" where
  "kept_planes df = filter (complete_row required_plane_cols) (rows df)"

definition kept_drones :: "dataframe \<Rightarrow> row list" where
  "kept_drones df = filter (complete_row required_drone_cols) (rows df)"

text \<open>The counts a printed event reports.\<close>

fun reported_counts :: "log_event \<Rightarrow> nat list" where
  "reported_counts (Print_processing n m) = [n, m]"
| "reported_counts (Print_complete n m) = [n, m]"
| "reported_counts _ = []"

text \<open>Coordinates that are numbers but not finite, and a library that rejects them.\<close>

definition non_finite :: "cell \<Rightarrow> bool" where
  "non_finite c = (c = Num NaN \<or> c = Num PInf \<or> c = Num NInf)"

definition rejects_non_finite :: "geodesic \<Rightarrow> bool" where
  "rejects_non_finite g =
     (\<forall>lat1 lon1 lat2 lon2.
        non_finite lat1 \<or> non_finite lon1 \<or> non_finite lat2 \<or> non_finite lon2 \<longrightarrow>
        (\<exists>e. g (lat1, lon1) (lat2, lon2) = Inl e))"

subsection \<open>Example batches\<close>

text \<open>
  \<open>grid_geodesic\<close> stands in for the library's distance in the worked examples only: it
  rejects coordinates that are not finite numbers and measures 100 km per degree of
  latitude and of longitude. Every general theorem holds for an arbitrary \<open>geodesic\<close>.
\<close>

definition grid_geodesic :: geodesic where
  "grid_geodesic p q =
     (case (p, q) of
        ((Num (Fin a), Num (Fin b)), (Num (Fin c), Num (Fin d))) \<Rightarrow>
          Inr (Fin (100 * (\<bar>a - c\<bar> + \<bar>b - d\<bar>)))
      | _ \<Rightarrow> Inl (ValueError ''Point coordinates must be finite''))"

definition plane_row :: "string \<Rightarrow> cell \<Rightarrow> cell \<Rightarrow> cell \<Rightarrow> row" where
  "plane_row icao lat lon alt =
     [(''icao24'', Str icao), (''callsign'', Str ''UAL100''), (''latitude'', lat),
      (''longitude'', lon), (''baro_altitude'', alt), (''velocity'', Num (Fin 150))]"

definition drone_row :: "string \<Rightarrow> cell \<Rightarrow> cell \<Rightarrow> cell \<Rightarrow> row" where
  "drone_row ident lat lon alt =
     [(''drone_id'', Str ident), (''latitude'', lat), (''longitude'', lon),
      (''altitude'', alt), (''speed'', Num (Fin 15))]"

definition plane_columns :: "string list" where
  "plane_columns =
     [''icao24'', ''callsign'', ''latitude'', ''longitude'', ''baro_altitude'', ''velocity'']"

definition drone_columns :: "string list" where
  "drone_columns = [''drone_id'', ''latitude'', ''longitude'', ''altitude'', ''speed'']"

definition boundary_planes :: dataframe where
  "boundary_planes =
     \<lparr>columns = plane_columns,
      rows = [plane_row ''a1'' (Num (Fin 0)) (Num (Fin 0)) (Num (Fin 200))]\<rparr>"

definition boundary_drones :: dataframe where
  "boundary_drones =
     \<lparr>columns = drone_columns,
      rows = [drone_row ''d1'' (Num (Fin (5 / 1000))) (Num (Fin 0)) (Num (Fin 100)),
              drone_row ''d2'' (Num (Fin (6 / 1000))) (Num (Fin 0)) (Num (Fin 100)),
              drone_row ''d3'' (Num (Fin (5 / 1000))) (Num (Fin 0)) (Num (Fin 99)),
              drone_row ''d4'' (Num (Fin 0)) (Num (Fin (5 / 1000))) (Num (Fin 300)),
              drone_row ''d5'' (Num (Fin 0)) (Num (Fin 0)) (Num (Fin 1200))]\<rparr>"

text \<open>Ten aircraft rows of which two have a null latitude (\<open>None\<close> and NaN), and one drone.\<close>

definition ten_planes :: dataframe where
  "ten_planes =
     \<lparr>columns = plane_columns,
      rows = map (\<lambda>(icao, lat). plane_row icao lat (Num (Fin 0)) (Num (Fin 1000)))
               [(''p0'', Num (Fin 1)), (''p1'', Num (Fin 2)), (''p2'', Null),
                (''p3'', Num (Fin 3)), (''p4'', Num (Fin 4)), (''p5'', Num (Fin 5)),
                (''p6'', Num NaN), (''p7'', Num (Fin 6)), (''p8'', Num (Fin 7)),
                (''p9'', Num (Fin 8))]\<rparr>"

definition one_drone :: dataframe where
  "one_drone =
     \<lparr>columns = drone_columns,
      rows = [drone_row ''d1'' (Num (Fin 50)) (Num (Fin 50)) (Num (Fin 100))]\<rparr>"




section \<open>Alert translator (drone\_alerts/alert\_translator.py)\<close>

text \<open>\<open>self.danger_thresholds\<close>, the dictionary \<open>__init__\<close> builds (kilometres).\<close>

record danger_thresholds =
  critical :: pyfloat
  high :: pyfloat
  medium :: pyfloat
  low :: pyfloat

definition DroneAlertTranslator_init :: danger_thresholds where
  "DroneAlertTranslator_init =
     \<lparr>critical = Fin (1 / 2), high = Fin 1, medium = Fin 2, low = Fin 5\<rparr>"

definition get_danger_level :: "danger_thresholds \<Rightarrow> pyfloat \<Rightarrow> string" where
  "get_danger_level self distance =
     (if fle distance (critical self) then ''CRITICAL''
      else if fle distance (high self) then ''HIGH''
      else if fle distance (medium self) then ''MEDIUM''
      else if fle distance (low self) then ''LOW''
      else ''SAFE'')"

definition priority_map :: "(string \<times> int) list" where
  "priority_map =
     [(''CRITICAL'', 1), (''HIGH'', 2), (''MEDIUM'', 3), (''LOW'', 4), (''SAFE'', 5)]"

definition get_priority :: "string \<Rightarrow> int" where
  "get_priority danger_level =
     (case map_of priority_map danger_level of Some p \<Rightarrow> p | None \<Rightarrow> 5)"

text \<open>
  \<open>_calculate_distance\<close>: the haversine formula on the \<open>latitude\<close> and \<open>longitude\<close>
  entries of the two dictionaries (0 when absent).
\<close>

definition calculate_distance :: "row \<Rightarrow> row \<Rightarrow> py_error + pyfloat" where
  "calculate_distance plane_data drone_data =
     (let lat1 = row_get plane_data ''latitude'' (Num (Fin 0));
          lon1 = row_get plane_data ''longitude'' (Num (Fin 0));
          lat2 = row_get drone_data ''latitude'' (Num (Fin 0));
          lon2 = row_get drone_data ''longitude'' (Num (Fin 0));
          R = Fin 6371
      in ebind (cell_sub lat2 lat1) (\<lambda>d1. let dlat = math_radians d1 in
         ebind (cell_sub lon2 lon1) (\<lambda>d2. let dlon = math_radians d2 in
         ebind (math_sin (fdiv dlat 2)) (\<lambda>s1.
         ebind (ebind (cell_real lat1) (\<lambda>x. math_cos (math_radians x))) (\<lambda>c1.
         ebind (ebind (cell_real lat2) (\<lambda>x. math_cos (math_radians x))) (\<lambda>c2.
         ebind (math_sin (fdiv dlon 2)) (\<lambda>s2.
           let a = fadd (square s1) (fmul (fmul c1 c2) (square s2)) in
         ebind (math_sqrt a) (\<lambda>r1.
         ebind (math_sqrt (fsub (Fin 1) a)) (\<lambda>r2.
           let c = fmul (Fin 2) (math_atan2 r1 r2)
           in Inr (fmul R c))))))))))"

definition guidance_map :: "(string \<times> string) list" where
  "guidance_map =
     [(''CRITICAL'',
       [CHR 0xC3, CHR 0xA2, CHR 0xC5, CHR 0xA1, CHR 0xC2, CHR 0xA0, CHR 0xC3, CHR 0xAF,
        CHR 0xC2, CHR 0xB8] @
       '' IMMEDIATE ACTION REQUIRED: Descend to safe altitude and move away from flight path!''),
      (''HIGH'',
       [CHR 0xC3, CHR 0xB0, CHR 0xC5, CHR 0xB8, CHR 0xC5, CHR 0xA1, CHR 0xC2, CHR 0xA8] @
       '' HIGH ALERT: Adjust altitude and maintain safe distance from aircraft''),
      (''MEDIUM'',
       [CHR 0xC3, CHR 0xA2, CHR 0xC5, CHR 0xA1, CHR 0xC2, CHR 0xA1] @
       '' CAUTION: Monitor aircraft movement and be prepared to take evasive action''),
      (''LOW'',
       [CHR 0xC3, CHR 0xB0, CHR 0xC5, CHR 0xB8, CHR 0xE2, CHR 0x80, CHR 0x9C, CHR 0xC2,
        CHR 0xA1] @
       '' ADVISORY: Aircraft detected in area, maintain awareness''),
      (''SAFE'',
       [CHR 0xC3, CHR 0xA2, CHR 0xC5, CHR 0x93, CHR 0xE2, CHR 0x80, CHR 0xA6] @
       '' CLEAR: No immediate threats detected'')]"

definition generate_guidance :: "row \<Rightarrow> row \<Rightarrow> string \<Rightarrow> string" where
  "generate_guidance plane_data drone_data level =
     (case map_of guidance_map level of Some g \<Rightarrow> g | None \<Rightarrow> ''Monitor surroundings'')"

definition color_map :: "(string \<times> string) list" where
  "color_map =
     [(''CRITICAL'', ''#FF0000''), (''HIGH'', ''#FF6600''), (''MEDIUM'', ''#FFFF00''),
      (''LOW'', ''#00FF00''), (''SAFE'', ''#00AA00'')]"

definition get_color_code :: "string \<Rightarrow> string" where
  "get_color_code level = (case map_of color_map level of Some c \<Rightarrow> c | None \<Rightarrow> ''#808080'')"

text \<open>
  The alert dictionary of \<open>translate_plane_to_drone_alert\<close>. Its \<open>alert_id\<close> and
  \<open>timestamp\<close> entries format the wall-clock time of the call and are read by no other
  code; they are not represented.
\<close>

record plane_info =
  plane_callsign :: cell
  plane_alt :: cell
  plane_speed :: cell
  plane_heading :: cell

record drone_info =
  drone_ident :: cell
  drone_alt :: cell
  location :: "cell \<times> cell"

record drone_alert =
  danger_level :: string
  distance_km :: pyfloat
  about_plane :: plane_info
  about_drone :: drone_info
  guidance :: string
  priority :: int
  color_code :: string

definition translate_plane_to_drone_alert ::
  "danger_thresholds \<Rightarrow> row \<Rightarrow> row \<Rightarrow> py_error + drone_alert" where
  "translate_plane_to_drone_alert self plane_data drone_data =
     ebind (calculate_distance plane_data drone_data) (\<lambda>distance.
       let level = get_danger_level self distance;
           advice = generate_guidance plane_data drone_data level
       in Inr \<lparr>danger_level = level,
               distance_km = py_round distance 2,
               about_plane =
                 \<lparr>plane_callsign = row_get plane_data ''callsign'' (Str ''Unknown''),
                  plane_alt = row_get plane_data ''altitude'' (Num (Fin 0)),
                  plane_speed = row_get plane_data ''velocity'' (Num (Fin 0)),
                  plane_heading = row_get plane_data ''heading'' (Num (Fin 0))\<rparr>,
               about_drone =
                 \<lparr>drone_ident = row_get drone_data ''drone_id'' Null,
                  drone_alt = row_get drone_data ''altitude'' (Num (Fin 0)),
                  location = (row_get drone_data ''latitude'' Null,
                              row_get drone_data ''longitude'' Null)\<rparr>,
               guidance = advice,
               priority = get_priority level,
               color_code = get_color_code level\<rparr>)"

record drone_summary =
  summary_drone_id :: cell
  summary_location :: "cell \<times> cell"
  summary_altitude :: cell
  summary_alerts :: "drone_alert list"
  alert_count :: nat
  highest_priority :: string

fun collect_alerts ::
  "danger_thresholds \<Rightarrow> row \<Rightarrow> row list \<Rightarrow> drone_alert list \<Rightarrow> py_error + drone_alert list" where
  "collect_alerts self drone [] drone_alerts = Inr drone_alerts"
| "collect_alerts self drone (plane # planes) drone_alerts =
     (case translate_plane_to_drone_alert self plane drone of
        Inl e \<Rightarrow> Inl e
      | Inr alert \<Rightarrow>
          collect_alerts self drone planes
            (if danger_level alert \<noteq> ''SAFE'' then drone_alerts @ [alert] else drone_alerts))"

definition summarise :: "row \<Rightarrow> drone_alert list \<Rightarrow> drone_summary" where
  "summarise drone drone_alerts =
     \<lparr>summary_drone_id = row_get drone ''drone_id'' Null,
      summary_location = (row_get drone ''latitude'' Null, row_get drone ''longitude'' Null),
      summary_altitude = row_get drone ''altitude'' (Num (Fin 0)),
      summary_alerts = drone_alerts,
      alert_count = length drone_alerts,
      highest_priority =
        (case drone_alerts of [] \<Rightarrow> ''SAFE'' | first # rest \<Rightarrow> danger_level first)\<rparr>"

fun process_drones ::
  "danger_thresholds \<Rightarrow> row list \<Rightarrow> row list \<Rightarrow> drone_summary list
     \<Rightarrow> py_error + drone_summary list" where
  "process_drones self [] plane_data all_alerts = Inr all_alerts"
| "process_drones self (drone # drones) plane_data all_alerts =
     (case collect_alerts self drone plane_data [] of
        Inl e \<Rightarrow> Inl e
      | Inr drone_alerts \<Rightarrow>
          process_drones self drones plane_data
            (all_alerts @ [summarise drone (sort_key priority drone_alerts)]))"

definition process_multiple_alerts ::
  "danger_thresholds \<Rightarrow> row list \<Rightarrow> row list \<Rightarrow> py_error + drone_summary list" where
  "process_multiple_alerts self drone_data plane_data =
     process_drones self drone_data plane_data []"

text \<open>
  The evaluation of every aircraft against one drone, in list order, and what it means for
  a summary to be the one of a drone: the non-SAFE evaluations, stably sorted by priority.
\<close>

definition evaluations :: "danger_thresholds \<Rightarrow> row list \<Rightarrow> row \<Rightarrow> (py_error + drone_alert) list" where
  "evaluations self plane_data drone = map (\<lambda>plane. translate_plane_to_drone_alert self plane drone) plane_data"

definition summary_of :: "danger_thresholds \<Rightarrow> row list \<Rightarrow> row \<Rightarrow> drone_summary \<Rightarrow> bool" where
  "summary_of self plane_data drone s =
     (\<exists>evals. evaluations self plane_data drone = map Inr evals \<and>
        s = summarise drone (sort_key priority (filter (\<lambda>a. danger_level a \<noteq> ''SAFE'') evals)))"

subsection \<open>Example traffic\<close>

text \<open>
  A drone at the origin and aircraft on its meridian, at latitudes that put them at
  \<open>pi / 2\<close> km (MEDIUM), 0 km (CRITICAL), \<open>pi / 4\<close> km (HIGH), about 111 km (SAFE) and 0 km.
\<close>

definition traffic_plane :: "string \<Rightarrow> real \<Rightarrow> row" where
  "traffic_plane name lat =
     [(''callsign'', Str name), (''latitude'', Num (Fin lat)), (''longitude'', Num (Fin 0)),
      (''altitude'', Num (Fin 300)), (''velocity'', Num (Fin 150)), (''heading'', Num (Fin 90))]"

definition watched_drone :: row where
  "watched_drone =
     [(''drone_id'', Str ''DRONE_1''), (''latitude'', Num (Fin 0)), (''longitude'', Num (Fin 0)),
      (''altitude'', Num (Fin 120))]"

definition traffic :: "row list" where
  "traffic =
     [traffic_plane ''M1'' (- (90 / 6371)), traffic_plane ''C1'' 0,
      traffic_plane ''H1'' (- (45 / 6371)), traffic_plane ''S1'' (- 1),
      traffic_plane ''C2'' 0]"

section \<open>Pilot dashboard service (dashboard/app.py)\<close>

text \<open>
  The fields of \<open>PilotDashboardService\<close> that threat detection reads. The functions below
  give the value a call returns or the exception it raises; what the dashboard prints on
  the way is not modelled.
\<close>

record service =
  self_drones_df :: dataframe
  self_use_test_data :: bool

definition calculate_bearing :: "cell \<Rightarrow> cell \<Rightarrow> cell \<Rightarrow> cell \<Rightarrow> py_error + pyfloat" where
  "calculate_bearing lat1 lon1 lat2 lon2 =
     ebind (cell_real lat1) (\<lambda>l1. let lat1_rad = math_radians l1 in
     ebind (cell_real lat2) (\<lambda>l2. let lat2_rad = math_radians l2 in
     ebind (cell_sub lon2 lon1) (\<lambda>d. let dlon_rad = math_radians d in
     ebind (math_sin dlon_rad) (\<lambda>sd.
     ebind (math_cos lat2_rad) (\<lambda>c2. let y = fmul sd c2 in
     ebind (math_cos lat1_rad) (\<lambda>c1.
     ebind (math_sin lat2_rad) (\<lambda>s2.
     ebind (math_sin lat1_rad) (\<lambda>s1.
     ebind (math_cos lat2_rad) (\<lambda>c2'.
     ebind (math_cos dlon_rad) (\<lambda>cd.
       let x = fsub (fmul c1 s2) (fmul (fmul s1 c2') cd);
           bearing_rad = math_atan2 y x;
           bearing_deg = fmod (fadd (math_degrees bearing_rad) (Fin 360)) 360
       in Inr bearing_deg))))))))))"

definition get_relative_position_description ::
  "cell \<Rightarrow> cell \<Rightarrow> cell \<Rightarrow> cell \<Rightarrow> py_error + string" where
  "get_relative_position_description lat1 lon1 lat2 lon2 =
     ebind (calculate_bearing lat1 lon1 lat2 lon2) (\<lambda>bearing. Inr
       (if flt bearing (Fin (45 / 2)) \<or> fle (Fin (675 / 2)) bearing then ''N''
        else if flt bearing (Fin (135 / 2)) then ''NE''
        else if flt bearing (Fin (225 / 2)) then ''E''
        else if flt bearing (Fin (315 / 2)) then ''SE''
        else if flt bearing (Fin (405 / 2)) then ''S''
        else if flt bearing (Fin (495 / 2)) then ''SW''
        else if flt bearing (Fin (585 / 2)) then ''W''
        else ''NW''))"

text \<open>An entry of the list \<open>get_nearby_drones\<close> returns.\<close>

record nearby_drone =
  nd_drone_id :: cell
  nd_latitude :: pyfloat
  nd_longitude :: pyfloat
  nd_altitude :: pyfloat
  nd_speed :: pyfloat
  nd_heading :: pyfloat
  nd_distance :: pyfloat
  nd_bearing :: pyfloat
  nd_relative_position :: string

definition make_nearby ::
  "cell \<Rightarrow> cell \<Rightarrow> row \<Rightarrow> cell \<Rightarrow> cell \<Rightarrow> pyfloat \<Rightarrow> py_error + nearby_drone" where
  "make_nearby current_lat current_lon drone lat lon distance_nm =
     ebind (py_float lat) (\<lambda>v_latitude.
     ebind (py_float lon) (\<lambda>v_longitude.
     ebind (py_float (row_get drone ''altitude'' (Num (Fin 0)))) (\<lambda>v_altitude.
     ebind (py_float (row_get drone ''speed'' (Num (Fin 0)))) (\<lambda>v_speed.
     ebind (py_float (row_get drone ''heading'' (Num (Fin 0)))) (\<lambda>v_heading.
     ebind (calculate_bearing current_lat current_lon lat lon) (\<lambda>v_bearing.
     ebind (get_relative_position_description current_lat current_lon lat lon) (\<lambda>v_position.
       Inr \<lparr>nd_drone_id = row_get drone ''drone_id'' (Str ''''),
            nd_latitude = v_latitude,
            nd_longitude = v_longitude,
            nd_altitude = v_altitude,
            nd_speed = v_speed,
            nd_heading = v_heading,
            nd_distance = distance_nm,
            nd_bearing = v_bearing,
            nd_relative_position = v_position\<rparr>)))))))"

fun nearby_loop ::
  "geodesic \<Rightarrow> cell \<Rightarrow> cell \<Rightarrow> pyfloat \<Rightarrow> row list \<Rightarrow> nearby_drone list
     \<Rightarrow> py_error + nearby_drone list" where
  "nearby_loop geodesic current_lat current_lon effective_range [] nearby_drones =
     Inr nearby_drones"
| "nearby_loop geodesic current_lat current_lon effective_range (drone # drones) nearby_drones =
     (case row_item drone ''latitude'' of
        Inl e \<Rightarrow> Inl e
      | Inr lat \<Rightarrow>
          if isna lat
          then nearby_loop geodesic current_lat current_lon effective_range drones nearby_drones
          else
            (case row_item drone ''longitude'' of
               Inl e \<Rightarrow> Inl e
             | Inr lon \<Rightarrow>
                 if isna lon
                 then nearby_loop geodesic current_lat current_lon effective_range drones
                        nearby_drones
                 else
                   (let distance_km =
                          snd (calculate_horizontal_distance geodesic current_lat current_lon
                                 lat lon);
                        distance_nm = fdiv distance_km (1852 / 1000)
                    in if fle distance_nm effective_range
                       then
                         (case make_nearby current_lat current_lon drone lat lon distance_nm of
                            Inl e \<Rightarrow> Inl e
                          | Inr entry \<Rightarrow>
                              nearby_loop geodesic current_lat current_lon effective_range
                                drones (nearby_drones @ [entry]))
                       else nearby_loop geodesic current_lat current_lon effective_range drones
                              nearby_drones)))"

definition get_nearby_drones ::
  "geodesic \<Rightarrow> service \<Rightarrow> row option \<Rightarrow> pyfloat \<Rightarrow> py_error + nearby_drone list" where
  "get_nearby_drones geodesic self current_aircraft range_nm =
     (case current_aircraft of
        None \<Rightarrow> Inr []
      | Some aircraft \<Rightarrow>
          if df_empty (self_drones_df self) \<or> aircraft = [] then Inr []
          else
            ebind (row_item aircraft ''latitude'') (\<lambda>current_lat.
            ebind (row_item aircraft ''longitude'') (\<lambda>current_lon.
            ebind (row_item aircraft ''callsign'') (\<lambda>shown.
              let effective_range =
                    (if \<not> self_use_test_data self then fmul range_nm (Fin 2) else range_nm)
              in ebind (nearby_loop geodesic current_lat current_lon effective_range
                          (rows (self_drones_df self)) []) (\<lambda>nearby_drones.
                   let max_drones = (if \<not> self_use_test_data self then 30 else 15 :: nat)
                   in Inr (take max_drones (sort_by flt nd_distance nearby_drones)))))))"

record threat_level =
  level_name :: string
  level_h_threshold :: pyfloat
  level_v_threshold :: pyfloat

definition threat_levels :: "bool \<Rightarrow> threat_level list" where
  "threat_levels use_test_data =
     (if use_test_data then
        [\<lparr>level_name = ''critical'', level_h_threshold = Fin (1 / 10), level_v_threshold = Fin 30\<rparr>,
         \<lparr>level_name = ''high'', level_h_threshold = Fin (3 / 10), level_v_threshold = Fin 50\<rparr>,
         \<lparr>level_name = ''medium'', level_h_threshold = Fin (5 / 10), level_v_threshold = Fin 100\<rparr>,
         \<lparr>level_name = ''low'', level_h_threshold = Fin 1, level_v_threshold = Fin 150\<rparr>]
      else
        [\<lparr>level_name = ''critical'', level_h_threshold = Fin (5 / 100), level_v_threshold = Fin 25\<rparr>,
         \<lparr>level_name = ''high'', level_h_threshold = Fin (2 / 10), level_v_threshold = Fin 40\<rparr>,
         \<lparr>level_name = ''medium'', level_h_threshold = Fin (4 / 10), level_v_threshold = Fin 75\<rparr>,
         \<lparr>level_name = ''low'', level_h_threshold = Fin (8 / 10), level_v_threshold = Fin 120\<rparr>,
         \<lparr>level_name = ''advisory'', level_h_threshold = Fin (15 / 10),
          level_v_threshold = Fin 200\<rparr>])"

definition risk_order :: "(string \<times> nat) list" where
  "risk_order = [(''critical'', 0), (''high'', 1), (''medium'', 2), (''low'', 3)]"

record threat =
  threat_type :: string
  threat_id :: cell
  threat_latitude :: cell
  threat_longitude :: cell
  threat_altitude :: pyfloat
  threat_horizontal_distance :: pyfloat
  threat_vertical_distance :: pyfloat
  risk_level :: string
  bearing :: pyfloat
  relative_position :: string
  distance_nm :: pyfloat
  threat_drone_speed :: pyfloat
  threat_drone_heading :: pyfloat

definition current_plane_df :: "row \<Rightarrow> py_error + dataframe" where
  "current_plane_df current_aircraft =
     ebind (row_item current_aircraft ''icao24'') (\<lambda>v_icao24.
     ebind (row_item current_aircraft ''callsign'') (\<lambda>v_callsign.
     ebind (row_item current_aircraft ''latitude'') (\<lambda>v_latitude.
     ebind (row_item current_aircraft ''longitude'') (\<lambda>v_longitude.
     ebind (row_item current_aircraft ''altitude'') (\<lambda>v_altitude.
     ebind (row_item current_aircraft ''speed'') (\<lambda>v_speed.
       Inr \<lparr>columns = [''icao24'', ''callsign'', ''latitude'', ''longitude'',
                       ''baro_altitude'', ''velocity''],
            rows = [[(''icao24'', v_icao24), (''callsign'', v_callsign),
                     (''latitude'', v_latitude), (''longitude'', v_longitude),
                     (''baro_altitude'', v_altitude), (''velocity'', v_speed)]]\<rparr>))))))"

definition nearby_drones_df :: "nearby_drone list \<Rightarrow> dataframe" where
  "nearby_drones_df nearby_drones =
     \<lparr>columns =
        (if nearby_drones = [] then []
         else [''drone_id'', ''latitude'', ''longitude'', ''altitude'', ''speed'', ''heading'',
               ''time_step'', ''timestamp'']),
      rows =
        map (\<lambda>drone.
               [(''drone_id'', nd_drone_id drone), (''latitude'', Num (nd_latitude drone)),
                (''longitude'', Num (nd_longitude drone)), (''altitude'', Num (nd_altitude drone)),
                (''speed'', Num (nd_speed drone)), (''heading'', Num (nd_heading drone)),
                (''time_step'', Num (Fin 1)), (''timestamp'', Str ''2025-10-12 12:00:00'')])
          nearby_drones\<rparr>"

definition make_threat ::
  "row \<Rightarrow> nearby_drone list \<Rightarrow> string \<Rightarrow> collision_alert \<Rightarrow> py_error + threat" where
  "make_threat current_aircraft nearby_drones name alert =
     (let drone_data = find (\<lambda>d. cell_eq (nd_drone_id d) (drone_id alert)) nearby_drones
      in ebind (row_item current_aircraft ''latitude'') (\<lambda>lat1.
         ebind (row_item current_aircraft ''longitude'') (\<lambda>lon1.
         ebind (calculate_bearing lat1 lon1 (drone_lat alert) (drone_lon alert)) (\<lambda>v_bearing.
         ebind (row_item current_aircraft ''latitude'') (\<lambda>lat1'.
         ebind (row_item current_aircraft ''longitude'') (\<lambda>lon1'.
         ebind (get_relative_position_description lat1' lon1' (drone_lat alert)
                  (drone_lon alert)) (\<lambda>v_position.
           Inr \<lparr>threat_type = ''drone'',
                threat_id = drone_id alert,
                threat_latitude = drone_lat alert,
                threat_longitude = drone_lon alert,
                threat_altitude = drone_altitude alert,
                threat_horizontal_distance = horizontal_distance alert,
                threat_vertical_distance = vertical_distance alert,
                risk_level = name,
                bearing = v_bearing,
                relative_position = v_position,
                distance_nm = (case drone_data of None \<Rightarrow> Fin 0 | Some d \<Rightarrow> nd_distance d),
                threat_drone_speed = (case drone_data of None \<Rightarrow> Fin 0 | Some d \<Rightarrow> nd_speed d),
                threat_drone_heading =
                  (case drone_data of None \<Rightarrow> Fin 0 | Some d \<Rightarrow> nd_heading d)\<rparr>)))))))"

fun add_threats ::
  "row \<Rightarrow> nearby_drone list \<Rightarrow> string \<Rightarrow> collision_alert list \<Rightarrow> threat list
     \<Rightarrow> py_error + threat list" where
  "add_threats current_aircraft nearby_drones name [] all_threats = Inr all_threats"
| "add_threats current_aircraft nearby_drones name (alert # rest) all_threats =
     (case find (\<lambda>t. cell_eq (threat_id t) (drone_id alert)) all_threats of
        Some existing_threat \<Rightarrow> add_threats current_aircraft nearby_drones name rest all_threats
      | None \<Rightarrow>
          (case make_threat current_aircraft nearby_drones name alert of
             Inl e \<Rightarrow> Inl e
           | Inr new \<Rightarrow>
               add_threats current_aircraft nearby_drones name rest (all_threats @ [new])))"

fun scan_levels ::
  "geodesic \<Rightarrow> row \<Rightarrow> nearby_drone list \<Rightarrow> dataframe \<Rightarrow> dataframe \<Rightarrow> threat_level list
     \<Rightarrow> threat list \<Rightarrow> py_error + threat list" where
  "scan_levels geodesic current_aircraft nearby_drones plane_df drone_df [] all_threats =
     Inr all_threats"
| "scan_levels geodesic current_aircraft nearby_drones plane_df drone_df (level # levels)
     all_threats =
     (case snd (detect_collisions geodesic plane_df drone_df
                  (level_h_threshold level) (level_v_threshold level)) of
        Inl e \<Rightarrow> Inl e
      | Inr found \<Rightarrow>
          (case add_threats current_aircraft nearby_drones (level_name level) found all_threats of
             Inl e \<Rightarrow> Inl e
           | Inr threats \<Rightarrow>
               scan_levels geodesic current_aircraft nearby_drones plane_df drone_df levels
                 threats))"

text \<open>
  The key of the final sort, \<open>(risk_order[x['risk_level']], x['horizontal_distance'])\<close>: a
  KeyError for a risk level that \<open>risk_order\<close> does not list. Tuples compare by their first
  unequal component.
\<close>

definition sort_key_of :: "threat \<Rightarrow> py_error + nat \<times> pyfloat" where
  "sort_key_of x =
     (case map_of risk_order (risk_level x) of
        None \<Rightarrow> Inl (KeyError (risk_level x))
      | Some r \<Rightarrow> Inr (r, threat_horizontal_distance x))"

fun sort_keys :: "threat list \<Rightarrow> py_error + (nat \<times> pyfloat) list" where
  "sort_keys [] = Inr []"
| "sort_keys (x # xs) =
     (case sort_key_of x of
        Inl e \<Rightarrow> Inl e
      | Inr k \<Rightarrow> (case sort_keys xs of Inl e \<Rightarrow> Inl e | Inr ks \<Rightarrow> Inr (k # ks)))"

definition tuple_lt :: "nat \<times> pyfloat \<Rightarrow> nat \<times> pyfloat \<Rightarrow> bool" where
  "tuple_lt a b = (if fst a = fst b then flt (snd a) (snd b) else fst a < fst b)"

definition sort_threats :: "threat list \<Rightarrow> py_error + threat list" where
  "sort_threats all_threats =
     (case sort_keys all_threats of
        Inl e \<Rightarrow> Inl e
      | Inr keys \<Rightarrow> Inr (map snd (sort_by tuple_lt fst (zip keys all_threats))))"

definition get_collision_threats ::
  "geodesic \<Rightarrow> service \<Rightarrow> row option \<Rightarrow> pyfloat \<Rightarrow> py_error + threat list" where
  "get_collision_threats geodesic self current_aircraft range_nm =
     (case current_aircraft of
        None \<Rightarrow> Inr []
      | Some aircraft \<Rightarrow>
          if df_empty (self_drones_df self) \<or> aircraft = [] then Inr []
          else
            ebind (row_item aircraft ''callsign'') (\<lambda>shown.
            ebind (get_nearby_drones geodesic self current_aircraft range_nm) (\<lambda>nearby_drones.
              if nearby_drones = [] then Inr []
              else
                ebind (current_plane_df aircraft) (\<lambda>plane_df.
                ebind (scan_levels geodesic aircraft nearby_drones plane_df
                         (nearby_drones_df nearby_drones)
                         (threat_levels (self_use_test_data self)) []) sort_threats))))"

text \<open>
  A tier claims a drone id when the detector, run at the tier's thresholds on the
  aircraft's frame and the frame of nearby drones, returns an alert for that id;
  \<open>first_claiming\<close> is the name of the first tier of a list that claims an id, and
  \<open>tier_of\<close> the tier under which a threat list reports an id.
\<close>

definition claimed :: "geodesic \<Rightarrow> dataframe \<Rightarrow> dataframe \<Rightarrow> threat_level \<Rightarrow> cell \<Rightarrow> bool" where
  "claimed g plane_df drone_df level i =
     (case snd (detect_collisions g plane_df drone_df
                  (level_h_threshold level) (level_v_threshold level)) of
        Inl e \<Rightarrow> False
      | Inr found \<Rightarrow> i \<in> set (map drone_id found))"

fun first_claiming ::
  "geodesic \<Rightarrow> dataframe \<Rightarrow> dataframe \<Rightarrow> threat_level list \<Rightarrow> cell \<Rightarrow> string option" where
  "first_claiming g plane_df drone_df [] i = None"
| "first_claiming g plane_df drone_df (level # levels) i =
     (if claimed g plane_df drone_df level i then Some (level_name level)
      else first_claiming g plane_df drone_df levels i)"

definition tier_of :: "threat list \<Rightarrow> cell \<Rightarrow> string option" where
  "tier_of ts = map_of (map (\<lambda>t. (threat_id t, risk_level t)) ts)"

subsection \<open>Example services\<close>

text \<open>
  An aircraft at the origin at 1000 m. In real-data mode, one drone at the same position
  150 m below it; in test mode, one drone 10 m below it and one 120 m below it.
\<close>

definition own_aircraft :: row where
  "own_aircraft =
     [(''callsign'', Str ''AI100''), (''icao24'', Str ''800abc''), (''latitude'', Num (Fin 0)),
      (''longitude'', Num (Fin 0)), (''altitude'', Num (Fin 1000)), (''speed'', Num (Fin 200))]"

definition own_plane_df :: dataframe where
  "own_plane_df =
     \<lparr>columns = [''icao24'', ''callsign'', ''latitude'', ''longitude'', ''baro_altitude'',
                 ''velocity''],
      rows = [[(''icao24'', Str ''800abc''), (''callsign'', Str ''AI100''),
               (''latitude'', Num (Fin 0)), (''longitude'', Num (Fin 0)),
               (''baro_altitude'', Num (Fin 1000)), (''velocity'', Num (Fin 200))]]\<rparr>"

definition real_service :: service where
  "real_service =
     \<lparr>self_drones_df =
        \<lparr>columns = [''drone_id'', ''latitude'', ''longitude'', ''altitude'', ''speed'', ''heading''],
         rows = [[(''drone_id'', Str ''DRONE_7''), (''latitude'', Num (Fin 0)),
                  (''longitude'', Num (Fin 0)), (''altitude'', Num (Fin 850)),
                  (''speed'', Num (Fin 15)), (''heading'', Num (Fin 40))]]\<rparr>,
      self_use_test_data = False\<rparr>"

definition test_service :: service where
  "test_service =
     \<lparr>self_drones_df =
        \<lparr>columns = [''drone_id'', ''latitude'', ''longitude'', ''altitude'', ''speed'', ''heading''],
         rows = [[(''drone_id'', Str ''DRONE_1''), (''latitude'', Num (Fin 0)),
                  (''longitude'', Num (Fin 0)), (''altitude'', Num (Fin 990)),
                  (''speed'', Num (Fin 15)), (''heading'', Num (Fin 40))],
                 [(''drone_id'', Str ''DRONE_2''), (''latitude'', Num (Fin 0)),
                  (''longitude'', Num (Fin 0)), (''altitude'', Num (Fin 880)),
                  (''speed'', Num (Fin 18)), (''heading'', Num (Fin 80))]]\<rparr>,
      self_use_test_data = True\<rparr>"

definition test_nearby :: "nearby_drone list" where
  "test_nearby =
     [\<lparr>nd_drone_id = Str ''DRONE_1'', nd_latitude = Fin 0, nd_longitude = Fin 0,
       nd_altitude = Fin 990, nd_speed = Fin 15, nd_heading = Fin 40, nd_distance = Fin 0,
       nd_bearing = Fin 0, nd_relative_position = ''N''\<rparr>,
      \<lparr>nd_drone_id = Str ''DRONE_2'', nd_latitude = Fin 0, nd_longitude = Fin 0,
       nd_altitude = Fin 880, nd_speed = Fin 18, nd_heading = Fin 80, nd_distance = Fin 0,
       nd_bearing = Fin 0, nd_relative_position = ''N''\<rparr>]"

section \<open>Properties of the classification\<close>

lemma get_priority_simps:
  "get_priority ''CRITICAL'' = 1" "get_priority ''HIGH'' = 2" "get_priority ''MEDIUM'' = 3"
  "get_priority ''LOW'' = 4" "get_priority ''SAFE'' = 5"
  by (simp_all add: get_priority_def priority_map_def)

lemma get_danger_level_default:
  "get_danger_level DroneAlertTranslator_init d =
     (if fle d (Fin (1 / 2)) then ''CRITICAL''
      else if fle d (Fin 1) then ''HIGH''
      else if fle d (Fin 2) then ''MEDIUM''
      else if fle d (Fin 5) then ''LOW''
      else ''SAFE'')"
  by (simp add: get_danger_level_def DroneAlertTranslator_init_def)

text \<open>
  C2. With the default thresholds a distance is CRITICAL when it is at most 0.5, HIGH when
  above 0.5 and at most 1.0, MEDIUM when above 1.0 and at most 2.0, LOW when above 2.0 and
  at most 5.0, and SAFE in every other case (above 5.0, or NaN); the priorities of the
  five levels are 1, 2, 3, 4 and 5.
\<close>

theorem classify_ladder:
  "(fle d (Fin (1 / 2)) \<longrightarrow> get_danger_level DroneAlertTranslator_init d = ''CRITICAL'') \<and>
   (flt (Fin (1 / 2)) d \<and> fle d (Fin 1) \<longrightarrow>
      get_danger_level DroneAlertTranslator_init d = ''HIGH'') \<and>
   (flt (Fin 1) d \<and> fle d (Fin 2) \<longrightarrow>
      get_danger_level DroneAlertTranslator_init d = ''MEDIUM'') \<and>
   (flt (Fin 2) d \<and> fle d (Fin 5) \<longrightarrow>
      get_danger_level DroneAlertTranslator_init d = ''LOW'') \<and>
   (\<not> fle d (Fin 5) \<longrightarrow> get_danger_level DroneAlertTranslator_init d = ''SAFE'') \<and>
   get_priority ''CRITICAL'' = 1 \<and> get_priority ''HIGH'' = 2 \<and>
   get_priority ''MEDIUM'' = 3 \<and> get_priority ''LOW'' = 4 \<and> get_priority ''SAFE'' = 5"
  by (cases d) (simp_all add: get_danger_level_default get_priority_simps)

theorem classify_ladder_witness:
  "get_danger_level DroneAlertTranslator_init (Fin (1 / 2)) = ''CRITICAL'' \<and>
   get_danger_level DroneAlertTranslator_init (Fin (3 / 4)) = ''HIGH'' \<and>
   get_danger_level DroneAlertTranslator_init (Fin 2) = ''MEDIUM'' \<and>
   get_danger_level DroneAlertTranslator_init (Fin 5) = ''LOW'' \<and>
   get_danger_level DroneAlertTranslator_init (Fin 6) = ''SAFE'' \<and>
   get_danger_level DroneAlertTranslator_init NaN = ''SAFE''"
  using classify_ladder [of "Fin (1 / 2)"] classify_ladder [of "Fin (3 / 4)"]
    classify_ladder [of "Fin 2"] classify_ladder [of "Fin 5"] classify_ladder [of "Fin 6"]
    classify_ladder [of NaN]
  by simp

text \<open>
  C10. The classification is monotone: when one distance is at most another, its priority
  rank is at most the other's, so a smaller separation is never less severe.
\<close>

theorem classify_monotone:
  "fle d1 d2 \<Longrightarrow>
     get_priority (get_danger_level DroneAlertTranslator_init d1)
       \<le> get_priority (get_danger_level DroneAlertTranslator_init d2)"
  by (cases d1; cases d2) (simp_all add: get_danger_level_default get_priority_simps)

theorem classify_monotone_witness:
  "fle (Fin (3 / 10)) (Fin 3) \<and>
   get_priority (get_danger_level DroneAlertTranslator_init (Fin (3 / 10))) = 1 \<and>
   get_priority (get_danger_level DroneAlertTranslator_init (Fin 3)) = 4 \<and>
   get_priority (get_danger_level DroneAlertTranslator_init (Fin (3 / 10)))
     \<le> get_priority (get_danger_level DroneAlertTranslator_init (Fin 3))"
  using classify_monotone [of "Fin (3 / 10)" "Fin 3"]
  by (simp add: get_danger_level_default get_priority_simps)

section \<open>Properties of the collision detector\<close>

subsection \<open>Running the examples\<close>

lemma grid_geodesic_rejects: "rejects_non_finite grid_geodesic"
  unfolding rejects_non_finite_def non_finite_def grid_geodesic_def
  by (auto split: cell.splits pyfloat.splits)

lemma grid_geodesic_finite [simp]:
  "grid_geodesic (Num (Fin a), Num (Fin b)) (Num (Fin c), Num (Fin d)) =
     Inr (Fin (100 * (\<bar>a - c\<bar> + \<bar>b - d\<bar>)))"
  by (simp add: grid_geodesic_def)

lemmas example_defs =
  plane_row_def drone_row_def plane_columns_def drone_columns_def boundary_planes_def
  boundary_drones_def ten_planes_def one_drone_def


lemmas detect_defs =
  detect_collisions_def df_empty_def missing_cols_def required_plane_cols_def
  required_drone_cols_def dropna_def complete_row_def isna_def
  pair_step_def try_pair_def make_alert_def row_item_def row_get_def
  calculate_horizontal_distance_def calculate_vertical_distance_def fsub_def
  round_half_even_def Let_def

subsection \<open>The scan over all pairs\<close>

lemma fle_refl: "x \<noteq> NaN \<Longrightarrow> fle x x"
  by (cases x) simp_all

lemma complete_rowD:
  "complete_row ks r \<Longrightarrow> k \<in> set ks \<Longrightarrow> \<exists>c. map_of r k = Some c \<and> \<not> isna c"
  by (auto simp: complete_row_def list_all_iff split: option.splits)

lemma complete_row_item:
  "complete_row ks r \<Longrightarrow> k \<in> set ks \<Longrightarrow> row_item r k = Inr (row_get r k d)"
  by (drule (1) complete_rowD) (auto simp: row_item_def row_get_def)

lemma vertical_distance_abs_difference:
  "calculate_vertical_distance a b = abs_difference a b"
  by (cases a; cases b) (simp_all add: calculate_vertical_distance_def fsub_def)

lemma horizontal_distance_fallback:
  "snd (calculate_horizontal_distance g lat1 lon1 lat2 lon2) =
     (case g (lat1, lon1) (lat2, lon2) of Inr distance \<Rightarrow> distance | Inl e \<Rightarrow> PInf)"
  by (simp add: calculate_horizontal_distance_def split: sum.splits)

lemma cell_number_py_float:
  "cell_number c = (case py_float c of Inr x \<Rightarrow> Some x | Inl e \<Rightarrow> None)"
  by (cases c) simp_all

lemma try_pair_complete:
  assumes p: "complete_row required_plane_cols plane"
    and d: "complete_row required_drone_cols drone"
  shows "(case snd (try_pair g ht vt plane drone) of Inr (Some a) \<Rightarrow> [a] | _ \<Rightarrow> []) =
         (if near_miss g ht vt plane drone then [alert_of g plane drone] else [])"
proof -
  have items:
    "row_item plane ''icao24'' = Inr (row_get plane ''icao24'' Null)"
    "row_item plane ''latitude'' = Inr (row_get plane ''latitude'' Null)"
    "row_item plane ''longitude'' = Inr (row_get plane ''longitude'' Null)"
    "row_item plane ''baro_altitude'' = Inr (row_get plane ''baro_altitude'' Null)"
    "row_item drone ''drone_id'' = Inr (row_get drone ''drone_id'' Null)"
    "row_item drone ''latitude'' = Inr (row_get drone ''latitude'' Null)"
    "row_item drone ''longitude'' = Inr (row_get drone ''longitude'' Null)"
    "row_item drone ''altitude'' = Inr (row_get drone ''altitude'' Null)"
    using p d by (simp_all add: complete_row_item required_plane_cols_def required_drone_cols_def)
  have h: "horizontal_of g plane drone =
      snd (calculate_horizontal_distance g
             (row_get plane ''latitude'' Null) (row_get plane ''longitude'' Null)
             (row_get drone ''latitude'' Null) (row_get drone ''longitude'' Null))"
    by (simp add: horizontal_of_def horizontal_distance_fallback)
  show ?thesis
    by (cases "py_float (row_get plane ''baro_altitude'' Null)";
        cases "py_float (row_get drone ''altitude'' Null)")
       (simp_all add: try_pair_def items make_alert_def near_miss_def vertical_of_def
          altitude_of_def cell_number_py_float h alert_of_def or_nan_def Let_def
          vertical_distance_abs_difference split: prod.splits)
qed

lemma pair_step_alerts:
  "alerts (pair_step g ht vt plane drone s) = alerts s @ pair_alerts g ht vt plane drone"
  by (simp add: pair_step_def pair_alerts_def split: prod.splits sum.splits option.splits)

lemma pair_step_count:
  "collision_count (pair_step g ht vt plane drone s) =
     collision_count s + length (pair_alerts g ht vt plane drone)"
  by (simp add: pair_step_def pair_alerts_def split: prod.splits sum.splits option.splits)

lemma pair_step_printed:
  "\<exists>evs. printed (pair_step g ht vt plane drone s) = printed s @ evs"
  by (simp add: pair_step_def split: prod.splits sum.splits option.splits)

lemma scan_drones_alerts:
  "alerts (scan_drones g ht vt plane ds s) =
     alerts s @ concat (map (pair_alerts g ht vt plane) ds)"
  by (induction ds arbitrary: s) (simp_all add: pair_step_alerts)

lemma scan_drones_count:
  "collision_count (scan_drones g ht vt plane ds s) =
     collision_count s + length (concat (map (pair_alerts g ht vt plane) ds))"
  by (induction ds arbitrary: s) (simp_all add: pair_step_count)

lemma scan_drones_printed:
  "\<exists>evs. printed (scan_drones g ht vt plane ds s) = printed s @ evs"
proof (induction ds arbitrary: s)
  case Nil
  then show ?case by simp
next
  case (Cons d ds)
  obtain e1 where "printed (pair_step g ht vt plane d s) = printed s @ e1"
    using pair_step_printed by blast
  moreover obtain e2 where
    "printed (scan_drones g ht vt plane ds (pair_step g ht vt plane d s)) =
       printed (pair_step g ht vt plane d s) @ e2"
    using Cons.IH by blast
  ultimately show ?case by simp
qed

lemma scan_planes_alerts:
  "alerts (scan_planes g ht vt ps ds s) =
     alerts s @ concat (map (\<lambda>p. concat (map (pair_alerts g ht vt p) ds)) ps)"
  by (induction ps arbitrary: s) (simp_all add: scan_drones_alerts)

lemma scan_planes_count:
  "collision_count (scan_planes g ht vt ps ds s) =
     collision_count s + length (concat (map (\<lambda>p. concat (map (pair_alerts g ht vt p) ds)) ps))"
  by (induction ps arbitrary: s) (simp_all add: scan_drones_count)

lemma scan_planes_printed:
  "\<exists>evs. printed (scan_planes g ht vt ps ds s) = printed s @ evs"
proof (induction ps arbitrary: s)
  case Nil
  then show ?case by simp
next
  case (Cons p ps)
  obtain e1 where "printed (scan_drones g ht vt p ds s) = printed s @ e1"
    using scan_drones_printed by blast
  moreover obtain e2 where
    "printed (scan_planes g ht vt ps ds (scan_drones g ht vt p ds s)) =
       printed (scan_drones g ht vt p ds s) @ e2"
    using Cons.IH by blast
  ultimately show ?case by simp
qed

lemma dropna_present:
  "missing_cols ks df = [] \<Longrightarrow> dropna ks df = Inr (df\<lparr>rows := filter (complete_row ks) (rows df)\<rparr>)"
  by (simp add: missing_cols_def dropna_def)

lemma detect_collisions_scan:
  assumes "missing_cols required_plane_cols planes_df = []"
    and "missing_cols required_drone_cols drones_df = []"
    and "\<not> df_empty planes_df" "\<not> df_empty drones_df"
  shows "detect_collisions g planes_df drones_df ht vt =
     (let s = scan_planes g ht vt (kept_planes planes_df) (kept_drones drones_df)
                \<lparr>alerts = [], collision_count = 0,
                 printed = [Print_processing (length (kept_planes planes_df))
                              (length (kept_drones drones_df))]\<rparr>
      in (printed s @ [Print_complete (collision_count s)
                         (length (kept_planes planes_df) * length (kept_drones drones_df))],
          Inr (alerts s)))"
  using assms dropna_present [OF assms(1)] dropna_present [OF assms(2)]
  by (simp add: detect_collisions_def kept_planes_def kept_drones_def Let_def
        required_plane_cols_def required_drone_cols_def)

lemma pair_alerts_kept:
  "p \<in> set (kept_planes pdf) \<Longrightarrow> d \<in> set (kept_drones ddf) \<Longrightarrow>
     pair_alerts g ht vt p d = (if near_miss g ht vt p d then [alert_of g p d] else [])"
  unfolding pair_alerts_def kept_planes_def kept_drones_def
  by (rule try_pair_complete) simp_all

lemma kept_alerts_eq:
  "concat (map (\<lambda>p. concat (map (pair_alerts g ht vt p) (kept_drones ddf))) (kept_planes pdf)) =
   [alert_of g p d. p \<leftarrow> kept_planes pdf, d \<leftarrow> kept_drones ddf, near_miss g ht vt p d]"
proof -
  have inner: "map (pair_alerts g ht vt p) (kept_drones ddf) =
      map (\<lambda>d. if near_miss g ht vt p d then [alert_of g p d] else []) (kept_drones ddf)"
    if "p \<in> set (kept_planes pdf)" for p
    using that by (intro map_cong refl pair_alerts_kept)
  have "map (\<lambda>p. concat (map (pair_alerts g ht vt p) (kept_drones ddf))) (kept_planes pdf) =
      map (\<lambda>p. concat (map (\<lambda>d. if near_miss g ht vt p d then [alert_of g p d] else [])
             (kept_drones ddf))) (kept_planes pdf)"
    by (rule map_cong [OF refl]) (simp only: inner)
  from arg_cong [OF this, of concat] show ?thesis by simp
qed

lemma detect_collisions_kept:
  assumes "missing_cols required_plane_cols planes_df = []"
    and "missing_cols required_drone_cols drones_df = []"
  shows "snd (detect_collisions g planes_df drones_df ht vt) =
     Inr [alert_of g p d. p \<leftarrow> kept_planes planes_df, d \<leftarrow> kept_drones drones_df,
            near_miss g ht vt p d]"
proof (cases "df_empty planes_df \<or> df_empty drones_df")
  case True
  have "columns planes_df \<noteq> []" "columns drones_df \<noteq> []"
    using assms by (auto simp: missing_cols_def required_plane_cols_def required_drone_cols_def)
  with True have "rows planes_df = [] \<or> rows drones_df = []"
    by (auto simp: df_empty_def)
  then have "kept_planes planes_df = [] \<or> kept_drones drones_df = []"
    by (auto simp: kept_planes_def kept_drones_def)
  then have "[alert_of g p d. p \<leftarrow> kept_planes planes_df, d \<leftarrow> kept_drones drones_df,
            near_miss g ht vt p d] = []"
    by auto
  with True show ?thesis by (simp add: detect_collisions_def)
next
  case False
  then show ?thesis
    using detect_collisions_scan [OF assms, of g ht vt]
    by (simp add: Let_def scan_planes_alerts kept_alerts_eq)
qed

subsection \<open>Claims about the detector\<close>

text \<open>
  C1. When both batches have the mandatory columns, the alerts returned are, in scan
  order, exactly one alert for each pair of a kept aircraft row and a kept drone row whose
  horizontal distance is at most the horizontal threshold and whose vertical distance is
  at most the vertical threshold. Both bounds are inclusive: a pair exactly at both
  thresholds is reported. The vertical distance of finite altitudes \<open>a\<close> and \<open>b\<close> is
  \<open>|a - b|\<close>, whichever of the two is higher, and for finite distances and thresholds the
  test is \<open>h \<le> ht\<close> and \<open>|a - b| \<le> vt\<close> on the numbers.
\<close>

theorem detect_collisions_pairs:
  assumes "missing_cols required_plane_cols planes_df = []"
    and "missing_cols required_drone_cols drones_df = []"
  shows "snd (detect_collisions g planes_df drones_df ht vt) =
           Inr [alert_of g p d. p \<leftarrow> kept_planes planes_df, d \<leftarrow> kept_drones drones_df,
                  near_miss g ht vt p d] \<and>
         (\<forall>p d. near_miss g ht vt p d \<longleftrightarrow>
            (\<exists>v. vertical_of p d = Some v \<and> fle (horizontal_of g p d) ht \<and> fle v vt)) \<and>
         (\<forall>p d. horizontal_of g p d = ht \<and> vertical_of p d = Some vt \<and> ht \<noteq> NaN \<and> vt \<noteq> NaN
            \<longrightarrow> near_miss g ht vt p d) \<and>
         (\<forall>p d a b. row_get p ''baro_altitude'' Null = Num (Fin a) \<and>
                   row_get d ''altitude'' Null = Num (Fin b)
            \<longrightarrow> vertical_of p d = Some (Fin \<bar>a - b\<bar>)) \<and>
         (\<forall>p d h a b x y. horizontal_of g p d = Fin h \<and>
                   row_get p ''baro_altitude'' Null = Num (Fin a) \<and>
                   row_get d ''altitude'' Null = Num (Fin b) \<and> ht = Fin x \<and> vt = Fin y
            \<longrightarrow> (near_miss g ht vt p d \<longleftrightarrow> h \<le> x \<and> \<bar>a - b\<bar> \<le> y))"
proof -
  have 1: "snd (detect_collisions g planes_df drones_df ht vt) =
           Inr [alert_of g p d. p \<leftarrow> kept_planes planes_df, d \<leftarrow> kept_drones drones_df,
                  near_miss g ht vt p d]"
    using assms by (rule detect_collisions_kept)
  have 2: "\<forall>p d. near_miss g ht vt p d \<longleftrightarrow>
            (\<exists>v. vertical_of p d = Some v \<and> fle (horizontal_of g p d) ht \<and> fle v vt)"
    by (auto simp: near_miss_def split: option.splits)
  have 3: "\<forall>p d. horizontal_of g p d = ht \<and> vertical_of p d = Some vt \<and> ht \<noteq> NaN \<and> vt \<noteq> NaN
            \<longrightarrow> near_miss g ht vt p d"
    by (auto simp: near_miss_def fle_refl)
  have 4: "\<forall>p d a b. row_get p ''baro_altitude'' Null = Num (Fin a) \<and>
                   row_get d ''altitude'' Null = Num (Fin b)
            \<longrightarrow> vertical_of p d = Some (Fin \<bar>a - b\<bar>)"
    by (simp add: vertical_of_def altitude_of_def)
  have 5: "\<forall>p d h a b x y. horizontal_of g p d = Fin h \<and>
                   row_get p ''baro_altitude'' Null = Num (Fin a) \<and>
                   row_get d ''altitude'' Null = Num (Fin b) \<and> ht = Fin x \<and> vt = Fin y
            \<longrightarrow> (near_miss g ht vt p d \<longleftrightarrow> h \<le> x \<and> \<bar>a - b\<bar> \<le> y)"
    by (simp add: near_miss_def vertical_of_def altitude_of_def)
  from 1 2 3 4 5 show ?thesis by (intro conjI)
qed

theorem detect_collisions_pairs_witness:
  "missing_cols required_plane_cols boundary_planes = [] \<and>
   missing_cols required_drone_cols boundary_drones = [] \<and>
   snd (detect_collisions grid_geodesic boundary_planes boundary_drones (Fin (1 / 2)) (Fin 100)) =
     Inr [alert_of grid_geodesic
            (plane_row ''a1'' (Num (Fin 0)) (Num (Fin 0)) (Num (Fin 200)))
            (drone_row ''d1'' (Num (Fin (5 / 1000))) (Num (Fin 0)) (Num (Fin 100))),
          alert_of grid_geodesic
            (plane_row ''a1'' (Num (Fin 0)) (Num (Fin 0)) (Num (Fin 200)))
            (drone_row ''d4'' (Num (Fin 0)) (Num (Fin (5 / 1000))) (Num (Fin 300)))] \<and>
   vertical_of
     (plane_row ''a1'' (Num (Fin 0)) (Num (Fin 0)) (Num (Fin 200)))
     (drone_row ''d4'' (Num (Fin 0)) (Num (Fin (5 / 1000))) (Num (Fin 300))) = Some (Fin 100) \<and>
   vertical_of
     (plane_row ''a1'' (Num (Fin 0)) (Num (Fin 0)) (Num (Fin 200)))
     (drone_row ''d5'' (Num (Fin 0)) (Num (Fin 0)) (Num (Fin 1200))) = Some (Fin 1000) \<and>
   \<not> near_miss grid_geodesic (Fin (1 / 2)) (Fin 100)
     (plane_row ''a1'' (Num (Fin 0)) (Num (Fin 0)) (Num (Fin 200)))
     (drone_row ''d5'' (Num (Fin 0)) (Num (Fin 0)) (Num (Fin 1200))) \<and>
   horizontal_of grid_geodesic
     (plane_row ''a1'' (Num (Fin 0)) (Num (Fin 0)) (Num (Fin 200)))
     (drone_row ''d1'' (Num (Fin (5 / 1000))) (Num (Fin 0)) (Num (Fin 100))) = Fin (1 / 2) \<and>
   vertical_of
     (plane_row ''a1'' (Num (Fin 0)) (Num (Fin 0)) (Num (Fin 200)))
     (drone_row ''d1'' (Num (Fin (5 / 1000))) (Num (Fin 0)) (Num (Fin 100))) = Some (Fin 100)"
  using detect_collisions_pairs [of boundary_planes boundary_drones grid_geodesic
      "Fin (1 / 2)" "Fin 100"]
  by (simp add: example_defs missing_cols_def required_plane_cols_def required_drone_cols_def
        kept_planes_def kept_drones_def complete_row_def isna_def near_miss_def
        horizontal_of_def vertical_of_def altitude_of_def row_get_def)

text \<open>
  C5. The summary of an empty alert list has every numeric field equal to zero; none of
  them is NaN.
\<close>

theorem summary_empty:
  "get_collision_summary [] =
     \<lparr>total_alerts = 0, unique_drones = 0, unique_planes = 0,
      avg_horizontal_distance = Fin 0, avg_vertical_distance = Fin 0,
      min_horizontal_distance = Fin 0, min_vertical_distance = Fin 0\<rparr> \<and>
   avg_horizontal_distance (get_collision_summary []) \<noteq> NaN \<and>
   avg_vertical_distance (get_collision_summary []) \<noteq> NaN \<and>
   min_horizontal_distance (get_collision_summary []) \<noteq> NaN \<and>
   min_vertical_distance (get_collision_summary []) \<noteq> NaN"
  by (simp add: get_collision_summary_def)




text \<open>
  C7, as stated, fails: the detector reports how many rows are left in each cleaned batch
  and never a count of dropped rows. For ten aircraft rows with two null latitudes it
  prints 8 (and 1 drone, 0 alerts, 8 pairs); the number 2 is not reported.
\<close>

theorem skip_count_counterexample:
  "length (rows ten_planes) = 10 \<and>
   length (filter (\<lambda>r. isna (row_get r ''latitude'' Null)) (rows ten_planes)) = 2 \<and>
   detect_collisions grid_geodesic ten_planes one_drone (Fin (1 / 2)) (Fin 100) =
     ([Print_processing 8 1, Print_complete 0 8], Inr []) \<and>
   2 \<notin> set (concat (map reported_counts
            (fst (detect_collisions grid_geodesic ten_planes one_drone (Fin (1 / 2)) (Fin 100)))))"
  by (simp add: example_defs detect_defs)

text \<open>
  C7, amended. When both batches are non-empty and have the mandatory columns, the call
  succeeds, compares only the rows that have a non-missing cell in every mandatory column,
  and reports the number of rows kept in each batch (not the number dropped) and the
  number of pairs of kept rows.
\<close>

theorem detect_collisions_drops_rows:
  assumes "missing_cols required_plane_cols planes_df = []"
    and "missing_cols required_drone_cols drones_df = []"
    and "\<not> df_empty planes_df" "\<not> df_empty drones_df"
  shows "(\<exists>evs found. detect_collisions g planes_df drones_df ht vt =
            (Print_processing (length (kept_planes planes_df)) (length (kept_drones drones_df))
               # evs @ [Print_complete (length found)
                          (length (kept_planes planes_df) * length (kept_drones drones_df))],
             Inr found) \<and>
            found = [alert_of g p d. p \<leftarrow> kept_planes planes_df, d \<leftarrow> kept_drones drones_df,
                       near_miss g ht vt p d]) \<and>
         (\<forall>r. r \<in> set (kept_planes planes_df) \<longleftrightarrow>
            r \<in> set (rows planes_df) \<and>
            (\<forall>k \<in> set required_plane_cols. \<exists>c. map_of r k = Some c \<and> \<not> isna c)) \<and>
         (\<forall>r. r \<in> set (kept_drones drones_df) \<longleftrightarrow>
            r \<in> set (rows drones_df) \<and>
            (\<forall>k \<in> set required_drone_cols. \<exists>c. map_of r k = Some c \<and> \<not> isna c))"
proof -
  let ?init = "\<lparr>alerts = [], collision_count = 0,
              printed = [Print_processing (length (kept_planes planes_df))
                           (length (kept_drones drones_df))]\<rparr>"
  let ?fin = "scan_planes g ht vt (kept_planes planes_df) (kept_drones drones_df) ?init"
  obtain evs where evs: "printed ?fin =
      Print_processing (length (kept_planes planes_df)) (length (kept_drones drones_df)) # evs"
    using scan_planes_printed [of g ht vt "kept_planes planes_df" "kept_drones drones_df" ?init]
    by auto
  have al: "alerts ?fin = [alert_of g p d. p \<leftarrow> kept_planes planes_df,
                           d \<leftarrow> kept_drones drones_df, near_miss g ht vt p d]"
    by (simp add: scan_planes_alerts kept_alerts_eq)
  have cnt: "collision_count ?fin = length (alerts ?fin)"
    by (simp add: scan_planes_count scan_planes_alerts)
  have run0: "detect_collisions g planes_df drones_df ht vt =
      (printed ?fin @ [Print_complete (collision_count ?fin)
                       (length (kept_planes planes_df) * length (kept_drones drones_df))],
       Inr (alerts ?fin))"
    using detect_collisions_scan [OF assms, of g ht vt] by (simp add: Let_def)
  have run: "detect_collisions g planes_df drones_df ht vt =
      (Print_processing (length (kept_planes planes_df)) (length (kept_drones drones_df))
         # evs @ [Print_complete (length (alerts ?fin))
                    (length (kept_planes planes_df) * length (kept_drones drones_df))],
       Inr (alerts ?fin))"
    unfolding run0 evs cnt by simp
  have kept: "r \<in> set (filter (complete_row ks) rs) \<longleftrightarrow>
      r \<in> set rs \<and> (\<forall>k \<in> set ks. \<exists>c. map_of r k = Some c \<and> \<not> isna c)" for r ks rs
    by (auto simp: complete_row_def list_all_iff split: option.splits)
  have ex: "\<exists>evs found. detect_collisions g planes_df drones_df ht vt =
            (Print_processing (length (kept_planes planes_df)) (length (kept_drones drones_df))
               # evs @ [Print_complete (length found)
                          (length (kept_planes planes_df) * length (kept_drones drones_df))],
             Inr found) \<and>
            found = [alert_of g p d. p \<leftarrow> kept_planes planes_df, d \<leftarrow> kept_drones drones_df,
                       near_miss g ht vt p d]"
    using run al by blast
  have kp: "\<forall>r. r \<in> set (kept_planes planes_df) \<longleftrightarrow>
            r \<in> set (rows planes_df) \<and>
            (\<forall>k \<in> set required_plane_cols. \<exists>c. map_of r k = Some c \<and> \<not> isna c)"
    unfolding kept_planes_def by (simp only: kept) simp
  have kd: "\<forall>r. r \<in> set (kept_drones drones_df) \<longleftrightarrow>
            r \<in> set (rows drones_df) \<and>
            (\<forall>k \<in> set required_drone_cols. \<exists>c. map_of r k = Some c \<and> \<not> isna c)"
    unfolding kept_drones_def by (simp only: kept) simp
  show ?thesis
    using ex kp kd by (intro conjI)
qed

theorem detect_collisions_drops_rows_witness:
  "length (rows ten_planes) = 10 \<and> length (kept_planes ten_planes) = 8 \<and>
   length (kept_drones one_drone) = 1 \<and>
   (\<exists>evs found. detect_collisions grid_geodesic ten_planes one_drone (Fin (1 / 2)) (Fin 100) =
      (Print_processing 8 1 # evs @ [Print_complete (length found) 8], Inr found))"
proof -
  have k: "length (kept_planes ten_planes) = 8" "length (kept_drones one_drone) = 1"
    by (simp_all add: example_defs kept_planes_def kept_drones_def complete_row_def isna_def
          required_plane_cols_def required_drone_cols_def)
  have h: "missing_cols required_plane_cols ten_planes = []"
    "missing_cols required_drone_cols one_drone = []"
    "\<not> df_empty ten_planes" "\<not> df_empty one_drone"
    by (simp_all add: example_defs missing_cols_def df_empty_def required_plane_cols_def
          required_drone_cols_def)
  have "length (rows ten_planes) = 10" by (simp add: example_defs)
  with detect_collisions_drops_rows [OF h, of grid_geodesic "Fin (1 / 2)" "Fin 100"] k
  show ?thesis by auto
qed

text \<open>
  C8. For a geodesic routine that rejects non-finite coordinates by raising, as the
  library's does, \<open>calculate_horizontal_distance\<close> answers every input with a NaN or
  infinite coordinate by printing the error and returning the infinite distance.
\<close>

theorem horizontal_distance_non_finite:
  assumes "rejects_non_finite geodesic"
    and "non_finite lat1 \<or> non_finite lon1 \<or> non_finite lat2 \<or> non_finite lon2"
  shows "\<exists>e. calculate_horizontal_distance geodesic lat1 lon1 lat2 lon2 =
           ([Print_distance_error e], PInf)"
proof -
  from assms obtain e where "geodesic (lat1, lon1) (lat2, lon2) = Inl e"
    unfolding rejects_non_finite_def by blast
  then show ?thesis by (simp add: calculate_horizontal_distance_def)
qed

theorem horizontal_distance_non_finite_witness:
  "rejects_non_finite grid_geodesic \<and> non_finite (Num NaN) \<and>
   snd (calculate_horizontal_distance grid_geodesic (Num (Fin 10)) (Num NaN)
          (Num (Fin 10)) (Num (Fin 20))) = PInf \<and>
   snd (calculate_horizontal_distance grid_geodesic (Num PInf) (Num (Fin 1))
          (Num (Fin 10)) (Num (Fin 20))) = PInf"
  using horizontal_distance_non_finite [OF grid_geodesic_rejects, of "Num (Fin 10)" "Num NaN" "Num (Fin 10)" "Num (Fin 20)"]
    horizontal_distance_non_finite [OF grid_geodesic_rejects, of "Num PInf" "Num (Fin 1)" "Num (Fin 10)" "Num (Fin 20)"]
    grid_geodesic_rejects
  by (auto simp: non_finite_def)

section \<open>Properties of the alert translator\<close>

subsection \<open>The loops of \<open>process_multiple_alerts\<close>\<close>

lemma collect_alerts_Inr:
  "collect_alerts self drone planes acc = Inr res \<Longrightarrow>
     \<exists>evals. evaluations self planes drone = map Inr evals \<and>
             res = acc @ filter (\<lambda>a. danger_level a \<noteq> ''SAFE'') evals"
proof (induction planes arbitrary: acc)
  case Nil
  then show ?case by (simp add: evaluations_def)
next
  case (Cons plane planes)
  from Cons.prems obtain alert where
    t: "translate_plane_to_drone_alert self plane drone = Inr alert"
    and rest: "collect_alerts self drone planes
        (if danger_level alert \<noteq> ''SAFE'' then acc @ [alert] else acc) = Inr res"
    by (auto split: sum.splits)
  from Cons.IH [OF rest] obtain evals where
    e: "evaluations self planes drone = map Inr evals"
    and r: "res = (if danger_level alert \<noteq> ''SAFE'' then acc @ [alert] else acc) @
              filter (\<lambda>a. danger_level a \<noteq> ''SAFE'') evals"
    by blast
  have "evaluations self (plane # planes) drone = map Inr (alert # evals)"
    using t e by (simp add: evaluations_def)
  moreover have "res = acc @ filter (\<lambda>a. danger_level a \<noteq> ''SAFE'') (alert # evals)"
    using r by simp
  ultimately show ?case by blast
qed

lemma process_drones_Inr:
  "process_drones self drones planes acc = Inr res \<Longrightarrow>
     \<exists>news. res = acc @ news \<and> list_all2 (summary_of self planes) drones news"
proof (induction drones arbitrary: acc)
  case Nil
  then show ?case by simp
next
  case (Cons drone drones)
  from Cons.prems obtain found where
    c: "collect_alerts self drone planes [] = Inr found"
    and rest: "process_drones self drones planes
        (acc @ [summarise drone (sort_key priority found)]) = Inr res"
    by (auto split: sum.splits)
  from collect_alerts_Inr [OF c] have s: "summary_of self planes drone
      (summarise drone (sort_key priority found))"
    by (auto simp: summary_of_def)
  from Cons.IH [OF rest] obtain news where
    "res = (acc @ [summarise drone (sort_key priority found)]) @ news"
    "list_all2 (summary_of self planes) drones news"
    by blast
  with s have "res = acc @ (summarise drone (sort_key priority found) # news) \<and>
      list_all2 (summary_of self planes) (drone # drones)
        (summarise drone (sort_key priority found) # news)"
    by simp
  then show ?case by blast
qed

lemma translate_priority:
  "translate_plane_to_drone_alert self plane drone = Inr a \<Longrightarrow>
     priority a = get_priority (danger_level a)"
  by (cases "calculate_distance plane drone")
     (auto simp: translate_plane_to_drone_alert_def Let_def)

lemma evaluations_priority:
  assumes "evaluations self planes drone = map Inr evals" and "a \<in> set evals"
  shows "priority a = get_priority (danger_level a)"
proof -
  from assms(2) obtain i where i: "i < length evals" "evals ! i = a"
    by (auto simp: in_set_conv_nth)
  have len: "length planes = length evals"
    using arg_cong [OF assms(1), of length] by (simp add: evaluations_def)
  have "evaluations self planes drone ! i = Inr a"
    using assms(1) i by simp
  then have "translate_plane_to_drone_alert self (planes ! i) drone = Inr a"
    using i len by (simp add: evaluations_def)
  then show ?thesis by (rule translate_priority)
qed

lemma summary_of_props:
  assumes "summary_of self planes drone s"
  shows "sorted (map priority (summary_alerts s)) \<and>
     (\<forall>a \<in> set (summary_alerts s).
        danger_level a \<noteq> ''SAFE'' \<and> priority a = get_priority (danger_level a)) \<and>
     highest_priority s =
       (case summary_alerts s of [] \<Rightarrow> ''SAFE'' | first # rest \<Rightarrow> danger_level first) \<and>
     alert_count s = length (summary_alerts s) \<and>
     (\<exists>evals. evaluations self planes drone = map Inr evals \<and>
        (\<forall>k. filter (\<lambda>a. priority a = k) (summary_alerts s) =
             filter (\<lambda>a. priority a = k) (filter (\<lambda>a. danger_level a \<noteq> ''SAFE'') evals)))"
proof -
  from assms obtain evals where
    e: "evaluations self planes drone = map Inr evals"
    and s: "s = summarise drone (sort_key priority (filter (\<lambda>a. danger_level a \<noteq> ''SAFE'') evals))"
    unfolding summary_of_def by blast
  have al: "summary_alerts s = sort_key priority (filter (\<lambda>a. danger_level a \<noteq> ''SAFE'') evals)"
    by (simp add: s summarise_def)
  have 1: "sorted (map priority (summary_alerts s))"
    by (simp add: al)
  have 2: "\<forall>a \<in> set (summary_alerts s).
        danger_level a \<noteq> ''SAFE'' \<and> priority a = get_priority (danger_level a)"
    using evaluations_priority [OF e] by (auto simp: al)
  have 3: "highest_priority s =
       (case summary_alerts s of [] \<Rightarrow> ''SAFE'' | first # rest \<Rightarrow> danger_level first)"
    by (simp add: s summarise_def)
  have 4: "alert_count s = length (summary_alerts s)"
    by (simp add: s summarise_def)
  have 5: "\<forall>k. filter (\<lambda>a. priority a = k) (summary_alerts s) =
             filter (\<lambda>a. priority a = k) (filter (\<lambda>a. danger_level a \<noteq> ''SAFE'') evals)"
    unfolding al by (simp only: sort_key_stable) simp
  show ?thesis using 1 2 3 4 5 e by blast
qed

subsection \<open>The haversine distance along a meridian\<close>

lemma pi_gt_two: "2 < pi"
proof -
  have "sin (1 / 2 :: real) \<le> 1 / 2" by (rule sin_x_le_x) simp
  moreover have "0 \<le> sin (1 / 2 :: real)"
    using pi_ge_two by (intro sin_ge_zero) simp_all
  ultimately have "(sin (1 / 2 :: real))\<^sup>2 \<le> (1 / 2)\<^sup>2"
    by (intro power_mono) simp_all
  moreover have "cos (1 :: real) = 1 - 2 * (sin (1 / 2))\<^sup>2"
    using cos_double_sin [of "1 / 2 :: real"] by simp
  ultimately have pos: "0 < cos (1 :: real)" by (simp add: power2_eq_square)
  have "pi / 2 \<noteq> 1"
  proof
    assume "pi / 2 = 1"
    then have "cos (1 :: real) = cos (pi / 2)" by simp
    with pos show False by simp
  qed
  with pi_ge_two show ?thesis by simp
qed

lemma sin_square_bounds:
  assumes "0 \<le> y" "y < pi / 2"
  shows "0 \<le> sin y * sin y" "sin y * sin y \<le> 1"
proof -
  have s: "0 \<le> sin y" using assms by (intro sin_ge_zero) simp_all
  then show "0 \<le> sin y * sin y" by simp
  show "sin y * sin y \<le> 1"
    using s sin_le_one [of y] by (intro mult_le_one) simp_all
qed

lemma atan2_sin_cos:
  assumes "0 \<le> y" "y < pi / 2"
  shows "atan2 (sqrt (sin y * sin y)) (sqrt (1 - sin y * sin y)) = y"
proof -
  have s: "0 \<le> sin y" using assms by (intro sin_ge_zero) simp_all
  have c: "0 < cos y" using assms by (intro cos_gt_zero_pi) simp_all
  have "1 - sin y * sin y = (cos y)\<^sup>2"
    using sin_cos_squared_add [of y] by (simp add: power2_eq_square algebra_simps)
  then have "sqrt (1 - sin y * sin y) = cos y" using c by simp
  moreover have "sqrt (sin y * sin y) = sin y" using s by simp
  moreover have "arctan (sin y / cos y) = y"
    using arctan_tan [of y] assms by (simp add: tan_def)
  ultimately show ?thesis using c by (simp add: atan2_def)
qed

lemma calculate_distance_meridian:
  assumes "map_of plane ''latitude'' = Some (Num (Fin p))"
    and "map_of plane ''longitude'' = Some (Num (Fin l))"
    and "map_of drone ''latitude'' = Some (Num (Fin q))"
    and "map_of drone ''longitude'' = Some (Num (Fin l))"
    and "p \<le> q" "q - p < 180"
  shows "calculate_distance plane drone = Inr (Fin (6371 * ((q - p) * pi / 180)))"
proof -
  let ?y = "(q - p) * pi / 360"
  have y: "0 \<le> ?y" "?y < pi / 2" using assms(5,6) by simp_all
  note b = sin_square_bounds [OF y]
  have "calculate_distance plane drone =
      Inr (Fin (6371 * (2 * atan2 (sqrt (sin ?y * sin ?y)) (sqrt (1 - sin ?y * sin ?y)))))"
    using assms(1-4) b
    by (simp add: calculate_distance_def row_get_def fsub_def square_def not_less)
  also have "\<dots> = Inr (Fin (6371 * ((q - p) * pi / 180)))"
    by (simp only: atan2_sin_cos [OF y]) simp
  finally show ?thesis .
qed

lemma traffic_distance:
  "0 \<le> x \<Longrightarrow> x < 180 \<Longrightarrow>
     calculate_distance (traffic_plane name (- x)) watched_drone = Inr (Fin (6371 * (x * pi / 180)))"
  using calculate_distance_meridian [of "traffic_plane name (- x)" "- x" 0 watched_drone 0]
  by (simp add: traffic_plane_def watched_drone_def)

lemma traffic_levels:
  "get_danger_level DroneAlertTranslator_init (Fin (6371 * (90 / 6371 * pi / 180))) = ''MEDIUM''"
  "get_danger_level DroneAlertTranslator_init (Fin (6371 * (0 * pi / 180))) = ''CRITICAL''"
  "get_danger_level DroneAlertTranslator_init (Fin (6371 * (45 / 6371 * pi / 180))) = ''HIGH''"
  "get_danger_level DroneAlertTranslator_init (Fin (6371 * (1 * pi / 180))) = ''SAFE''"
  using pi_gt_two pi_less_4 by (simp_all add: get_danger_level_default)

lemma traffic_translate:
  assumes "0 \<le> x" "x < 180"
    and "get_danger_level DroneAlertTranslator_init (Fin (6371 * (x * pi / 180))) = level"
  shows "\<exists>a. translate_plane_to_drone_alert DroneAlertTranslator_init (traffic_plane name (- x))
            watched_drone = Inr a \<and>
         danger_level a = level \<and> priority a = get_priority level \<and>
         plane_callsign (about_plane a) = Str name"
proof -
  have "calculate_distance (traffic_plane name (- x)) watched_drone =
      Inr (Fin (6371 * (x * pi / 180)))"
    using assms(1,2) by (rule traffic_distance)
  then show ?thesis
    unfolding translate_plane_to_drone_alert_def Let_def
    by (simp only: ebind.simps assms(3))
       (simp add: traffic_plane_def row_get_def)
qed

subsection \<open>Claim about the per-drone summaries\<close>

text \<open>
  C3. When \<open>process_multiple_alerts\<close> returns, it returns one summary per drone, in order,
  and in each summary: the alerts are sorted by non-decreasing priority, the priority
  being the rank of the alert's danger level (CRITICAL 1, HIGH 2, MEDIUM 3, LOW 4); no
  alert is SAFE; \<open>highest_priority\<close> is the danger level of the first alert, or SAFE when
  there is none; and the alerts of each priority are exactly the non-SAFE evaluations of
  that priority in their original evaluation order (the sort is stable).
\<close>

theorem process_multiple_alerts_sorted:
  assumes "process_multiple_alerts self drone_data plane_data = Inr summaries"
  shows "length summaries = length drone_data \<and>
     (\<forall>i < length drone_data.
        sorted (map priority (summary_alerts (summaries ! i))) \<and>
        (\<forall>a \<in> set (summary_alerts (summaries ! i)).
           danger_level a \<noteq> ''SAFE'' \<and> priority a = get_priority (danger_level a)) \<and>
        highest_priority (summaries ! i) =
          (case summary_alerts (summaries ! i) of
             [] \<Rightarrow> ''SAFE'' | first # rest \<Rightarrow> danger_level first) \<and>
        alert_count (summaries ! i) = length (summary_alerts (summaries ! i)) \<and>
        (\<exists>evals. evaluations self plane_data (drone_data ! i) = map Inr evals \<and>
           (\<forall>k. filter (\<lambda>a. priority a = k) (summary_alerts (summaries ! i)) =
                filter (\<lambda>a. priority a = k)
                  (filter (\<lambda>a. danger_level a \<noteq> ''SAFE'') evals))))"
proof -
  from assms have "list_all2 (summary_of self plane_data) drone_data summaries"
    using process_drones_Inr [of self drone_data plane_data "[]" summaries]
    by (auto simp: process_multiple_alerts_def)
  then have len: "length drone_data = length summaries"
    and each: "\<And>i. i < length drone_data \<Longrightarrow>
        summary_of self plane_data (drone_data ! i) (summaries ! i)"
    by (auto simp: list_all2_conv_all_nth)
  show ?thesis
    using len summary_of_props [OF each] by simp
qed

theorem process_multiple_alerts_sorted_witness:
  "\<exists>s. process_multiple_alerts DroneAlertTranslator_init [watched_drone] traffic = Inr [s] \<and>
       map (\<lambda>a. plane_callsign (about_plane a)) (summary_alerts s) =
         [Str ''C1'', Str ''C2'', Str ''H1'', Str ''M1''] \<and>
       map priority (summary_alerts s) = [1, 1, 2, 3] \<and>
       sorted (map priority (summary_alerts s)) \<and>
       highest_priority s = ''CRITICAL''"
proof -
  obtain m1 where m1:
    "translate_plane_to_drone_alert DroneAlertTranslator_init
       (traffic_plane ''M1'' (- (90 / 6371))) watched_drone = Inr m1"
    "danger_level m1 = ''MEDIUM''" "priority m1 = 3" "plane_callsign (about_plane m1) = Str ''M1''"
    using traffic_translate [OF _ _ traffic_levels(1), of "''M1''"]
    by (auto simp: get_priority_simps)
  obtain c1 where c1:
    "translate_plane_to_drone_alert DroneAlertTranslator_init
       (traffic_plane ''C1'' 0) watched_drone = Inr c1"
    "danger_level c1 = ''CRITICAL''" "priority c1 = 1" "plane_callsign (about_plane c1) = Str ''C1''"
    using traffic_translate [OF _ _ traffic_levels(2), of "''C1''"]
    by (auto simp: get_priority_simps)
  obtain h1 where h1:
    "translate_plane_to_drone_alert DroneAlertTranslator_init
       (traffic_plane ''H1'' (- (45 / 6371))) watched_drone = Inr h1"
    "danger_level h1 = ''HIGH''" "priority h1 = 2" "plane_callsign (about_plane h1) = Str ''H1''"
    using traffic_translate [OF _ _ traffic_levels(3), of "''H1''"]
    by (auto simp: get_priority_simps)
  obtain s1 where s1:
    "translate_plane_to_drone_alert DroneAlertTranslator_init
       (traffic_plane ''S1'' (- 1)) watched_drone = Inr s1"
    "danger_level s1 = ''SAFE''"
    using traffic_translate [OF _ _ traffic_levels(4), of "''S1''"]
    by auto
  obtain c2 where c2:
    "translate_plane_to_drone_alert DroneAlertTranslator_init
       (traffic_plane ''C2'' 0) watched_drone = Inr c2"
    "danger_level c2 = ''CRITICAL''" "priority c2 = 1" "plane_callsign (about_plane c2) = Str ''C2''"
    using traffic_translate [OF _ _ traffic_levels(2), of "''C2''"]
    by (auto simp: get_priority_simps)
  have run: "process_multiple_alerts DroneAlertTranslator_init [watched_drone] traffic =
      Inr [summarise watched_drone [c1, c2, h1, m1]]"
    by (simp add: process_multiple_alerts_def traffic_def m1 c1 h1 s1 c2)
  from process_multiple_alerts_sorted [OF run]
  have "sorted (map priority (summary_alerts (summarise watched_drone [c1, c2, h1, m1])))"
    by simp
  with run show ?thesis
    by (intro exI [of _ "summarise watched_drone [c1, c2, h1, m1]"])
       (simp add: summarise_def m1 c1 h1 c2)
qed

section \<open>Properties of the tiered detection\<close>

subsection \<open>Running the examples\<close>

lemma bearing_origin:
  "calculate_bearing (Num (Fin 0)) (Num (Fin 0)) (Num (Fin 0)) (Num (Fin 0)) = Inr (Fin 0)"
  by (simp add: calculate_bearing_def fsub_def atan2_def)

lemma position_origin:
  "get_relative_position_description (Num (Fin 0)) (Num (Fin 0)) (Num (Fin 0)) (Num (Fin 0)) =
     Inr ''N''"
  by (simp add: get_relative_position_description_def bearing_origin)

lemma nearby_real:
  "get_nearby_drones grid_geodesic real_service (Some own_aircraft) (Fin 10) =
     Inr [\<lparr>nd_drone_id = Str ''DRONE_7'', nd_latitude = Fin 0, nd_longitude = Fin 0,
           nd_altitude = Fin 850, nd_speed = Fin 15, nd_heading = Fin 40, nd_distance = Fin 0,
           nd_bearing = Fin 0, nd_relative_position = ''N''\<rparr>]"
  by (simp add: get_nearby_drones_def real_service_def own_aircraft_def df_empty_def
        row_item_def row_get_def isna_def calculate_horizontal_distance_def make_nearby_def
        bearing_origin position_origin sort_by_def Let_def)

lemma nearby_test:
  "get_nearby_drones grid_geodesic test_service (Some own_aircraft) (Fin 10) = Inr test_nearby"
  by (simp add: get_nearby_drones_def test_service_def own_aircraft_def df_empty_def
        row_item_def row_get_def isna_def calculate_horizontal_distance_def make_nearby_def
        bearing_origin position_origin sort_by_def Let_def test_nearby_def)

lemma own_plane_df_eq: "current_plane_df own_aircraft = Inr own_plane_df"
  by (simp add: current_plane_df_def own_aircraft_def row_item_def own_plane_df_def)

lemma threats_test:
  "\<exists>t1 t2. get_collision_threats grid_geodesic test_service (Some own_aircraft) (Fin 10) =
       Inr [t1, t2] \<and>
     threat_id t1 = Str ''DRONE_1'' \<and> risk_level t1 = ''critical'' \<and>
     threat_id t2 = Str ''DRONE_2'' \<and> risk_level t2 = ''low''"
  by (simp add: get_collision_threats_def nearby_test own_plane_df_eq)
     (simp add: test_service_def own_aircraft_def df_empty_def row_item_def test_nearby_def
        own_plane_df_def nearby_drones_df_def threat_levels_def detect_defs make_threat_def
        cell_eq_def bearing_origin position_origin sort_threats_def sort_key_of_def
        risk_order_def sort_by_def tuple_lt_def)

lemma claimed_low_test:
  "claimed grid_geodesic own_plane_df (nearby_drones_df test_nearby)
     \<lparr>level_name = ''low'', level_h_threshold = Fin 1, level_v_threshold = Fin 150\<rparr>
     (Str ''DRONE_1'')"
  by (simp add: claimed_def own_plane_df_def nearby_drones_df_def test_nearby_def detect_defs)

subsection \<open>The merge of the tiers\<close>

lemma tier_of_Nil [simp]: "tier_of [] i = None"
  by (simp add: tier_of_def)

lemma tier_of_snoc:
  "tier_of (ts @ [t]) i =
     (case tier_of ts i of Some n \<Rightarrow> Some n
      | None \<Rightarrow> if i = threat_id t then Some (risk_level t) else None)"
  by (auto simp: tier_of_def map_add_def split: option.splits)

lemma tier_of_None_iff: "tier_of ts i = None \<longleftrightarrow> i \<notin> set (map threat_id ts)"
  by (simp add: tier_of_def map_of_eq_None_iff image_image)

lemma tier_of_Some_iff:
  "distinct (map threat_id ts) \<Longrightarrow>
     tier_of ts i = Some n \<longleftrightarrow> (\<exists>t \<in> set ts. threat_id t = i \<and> risk_level t = n)"
  unfolding tier_of_def
  by (subst map_of_eq_Some_iff) (auto simp: comp_def)

lemma find_cell_eq_None:
  "i \<noteq> Num NaN \<Longrightarrow>
     find (\<lambda>t. cell_eq (threat_id t) i) ts = None \<longleftrightarrow> i \<notin> set (map threat_id ts)"
  by (auto simp: find_None_iff cell_eq_def)

lemma make_threat_Inr:
  "make_threat aircraft nearby name a = Inr t \<Longrightarrow> threat_id t = drone_id a \<and> risk_level t = name"
  unfolding make_threat_def Let_def
  by (cases "row_item aircraft ''latitude''"; cases "row_item aircraft ''longitude''";
      cases "calculate_bearing (projr (row_item aircraft ''latitude''))
               (projr (row_item aircraft ''longitude'')) (drone_lat a) (drone_lon a)";
      cases "get_relative_position_description (projr (row_item aircraft ''latitude''))
               (projr (row_item aircraft ''longitude'')) (drone_lat a) (drone_lon a)")
     auto

lemma add_threats_Inr:
  assumes "add_threats aircraft nearby name found acc = Inr res"
    and "\<forall>a \<in> set found. drone_id a \<noteq> Num NaN"
    and "distinct (map threat_id acc)"
  shows "distinct (map threat_id res) \<and>
         (\<forall>i. tier_of res i =
            (case tier_of acc i of Some n \<Rightarrow> Some n
             | None \<Rightarrow> if i \<in> set (map drone_id found) then Some name else None))"
  using assms
proof (induction found arbitrary: acc)
  case Nil
  then show ?case by (auto split: option.splits)
next
  case (Cons a rest)
  have nn: "drone_id a \<noteq> Num NaN" using Cons.prems(2) by simp
  have rest_nn: "\<forall>a \<in> set rest. drone_id a \<noteq> Num NaN" using Cons.prems(2) by simp
  show ?case
  proof (cases "find (\<lambda>t. cell_eq (threat_id t) (drone_id a)) acc")
    case (Some existing)
    then have known: "tier_of acc (drone_id a) \<noteq> None"
      using find_cell_eq_None [OF nn, of acc] by (simp add: tier_of_None_iff)
    from Some Cons.prems(1) have "add_threats aircraft nearby name rest acc = Inr res"
      by simp
    from Cons.IH [OF this rest_nn Cons.prems(3)] known show ?thesis
      by (auto split: option.splits)
  next
    case None
    then have fresh: "drone_id a \<notin> set (map threat_id acc)"
      using find_cell_eq_None [OF nn, of acc] by simp
    from None Cons.prems(1) obtain t where
      t: "make_threat aircraft nearby name a = Inr t"
      and run: "add_threats aircraft nearby name rest (acc @ [t]) = Inr res"
      by (auto split: sum.splits)
    from make_threat_Inr [OF t] have tid: "threat_id t = drone_id a" "risk_level t = name"
      by simp_all
    have d: "distinct (map threat_id (acc @ [t]))"
      using Cons.prems(3) fresh tid by simp
    from Cons.IH [OF run rest_nn d] show ?thesis
      by (auto simp: tier_of_snoc tid split: option.splits)
  qed
qed

lemma detect_ids_present:
  assumes "snd (detect_collisions g p d h v) = Inr found" and "a \<in> set found"
  shows "\<not> isna (drone_id a)"
proof (cases "missing_cols required_plane_cols p = [] \<and> missing_cols required_drone_cols d = []")
  case True
  with assms(1) detect_collisions_kept [of p d g h v]
  have "found = [alert_of g pr dr. pr \<leftarrow> kept_planes p, dr \<leftarrow> kept_drones d,
                   near_miss g h v pr dr]"
    by simp
  with assms(2) obtain pr dr where dr: "dr \<in> set (kept_drones d)" and a: "a = alert_of g pr dr"
    by auto
  from dr have "complete_row required_drone_cols dr" by (simp add: kept_drones_def)
  then obtain c where "map_of dr ''drone_id'' = Some c" "\<not> isna c"
    using complete_rowD [of required_drone_cols dr "''drone_id''"]
    by (auto simp: required_drone_cols_def)
  then show ?thesis by (simp add: a alert_of_def row_get_def)
next
  case False
  with assms show ?thesis
    by (auto simp: detect_collisions_def split: if_splits list.splits)
qed

lemma claimed_iff:
  "snd (detect_collisions g p d (level_h_threshold l) (level_v_threshold l)) = Inr found \<Longrightarrow>
     claimed g p d l i \<longleftrightarrow> i \<in> set (map drone_id found)"
  by (simp add: claimed_def)

lemma scan_levels_Inr:
  assumes "scan_levels g aircraft nearby p d levels acc = Inr res"
    and "distinct (map threat_id acc)"
  shows "distinct (map threat_id res) \<and>
         (\<forall>i. tier_of res i =
            (case tier_of acc i of Some n \<Rightarrow> Some n | None \<Rightarrow> first_claiming g p d levels i))"
  using assms
proof (induction levels arbitrary: acc)
  case Nil
  then show ?case by (auto split: option.splits)
next
  case (Cons l levels)
  from Cons.prems(1) obtain found mid where
    f: "snd (detect_collisions g p d (level_h_threshold l) (level_v_threshold l)) = Inr found"
    and m: "add_threats aircraft nearby (level_name l) found acc = Inr mid"
    and r: "scan_levels g aircraft nearby p d levels mid = Inr res"
    by (auto split: sum.splits)
  have nn: "\<forall>a \<in> set found. drone_id a \<noteq> Num NaN"
    using detect_ids_present [OF f] by (auto simp: isna_def)
  from add_threats_Inr [OF m nn Cons.prems(2)] have
    dm: "distinct (map threat_id mid)"
    and tm: "\<And>i. tier_of mid i =
            (case tier_of acc i of Some n \<Rightarrow> Some n
             | None \<Rightarrow> if i \<in> set (map drone_id found) then Some (level_name l) else None)"
    by simp_all
  from Cons.IH [OF r dm] have
    dr: "distinct (map threat_id res)"
    and tr: "\<And>i. tier_of res i =
            (case tier_of mid i of Some n \<Rightarrow> Some n | None \<Rightarrow> first_claiming g p d levels i)"
    by simp_all
  have "tier_of res i =
      (case tier_of acc i of Some n \<Rightarrow> Some n | None \<Rightarrow> first_claiming g p d (l # levels) i)"
    for i
    by (simp add: tr tm claimed_iff [OF f] split: option.splits)
  with dr show ?case by simp
qed

subsection \<open>The final sort\<close>

lemma mset_insort_by: "mset (insort_by lt key x ys) = add_mset x (mset ys)"
  by (induction ys) simp_all

lemma mset_sort_by_aux:
  "mset (foldl (\<lambda>sorted x. insort_by lt key x sorted) acc xs) = mset acc + mset xs"
  by (induction xs arbitrary: acc) (simp_all add: mset_insort_by)

lemma mset_sort_by: "mset (sort_by lt key xs) = mset xs"
  by (simp add: sort_by_def mset_sort_by_aux)

lemma sort_keys_length: "sort_keys ts = Inr ks \<Longrightarrow> length ks = length ts"
  by (induction ts arbitrary: ks) (auto split: sum.splits)

lemma sort_threats_mset:
  assumes "sort_threats ts = Inr res"
  shows "mset res = mset ts"
proof -
  from assms obtain ks where ks: "sort_keys ts = Inr ks"
    and res: "res = map snd (sort_by tuple_lt fst (zip ks ts))"
    by (auto simp: sort_threats_def split: sum.splits)
  have "mset res = image_mset snd (mset (zip ks ts))"
    by (simp add: res mset_sort_by)
  also have "\<dots> = mset (map snd (zip ks ts))" by simp
  also have "map snd (zip ks ts) = ts"
    using sort_keys_length [OF ks] by simp
  finally show ?thesis .
qed

lemma sort_threats_tiers:
  assumes "sort_threats ts = Inr res" and "distinct (map threat_id ts)"
  shows "distinct (map threat_id res) \<and> tier_of res = tier_of ts"
proof -
  have m: "mset res = mset ts" using assms(1) by (rule sort_threats_mset)
  then have "mset (map threat_id res) = mset (map threat_id ts)" by simp
  then have d: "distinct (map threat_id res)"
    using assms(2) mset_eq_imp_distinct_iff by blast
  have s: "set res = set ts" using m by (rule mset_eq_setD)
  have "tier_of res i = tier_of ts i" for i
  proof (cases "tier_of ts i")
    case None
    then have "i \<notin> set (map threat_id res)" using s by (simp add: tier_of_None_iff)
    then have "tier_of res i = None" using tier_of_None_iff [of res i] by blast
    with None show ?thesis by simp
  next
    case (Some n)
    then show ?thesis
      using s tier_of_Some_iff [OF d, of i n] tier_of_Some_iff [OF assms(2), of i n] by simp
  qed
  with d show ?thesis by auto
qed

lemma first_claiming_no_rows:
  "rows d = [] \<Longrightarrow> first_claiming g p d levels i = None"
  by (induction levels) (simp_all add: claimed_def detect_collisions_def df_empty_def)

subsection \<open>Claims about the tiers\<close>

text \<open>
  C4. When \<open>get_collision_threats\<close> returns, no drone id appears twice in the threat list,
  and a threat for an id is reported under a tier exactly when that tier is the first of
  the tier list, ordered most severe first, whose detector run returns an alert for the
  id: an id claimed by a tier is not reported under any later tier, even when it satisfies
  the later tier's thresholds too.
\<close>

theorem tier_exclusive:
  assumes "get_collision_threats g self current_aircraft range_nm = Inr threats"
  shows "distinct (map threat_id threats) \<and>
     (\<forall>aircraft nearby plane_df.
        current_aircraft = Some aircraft \<and>
        get_nearby_drones g self current_aircraft range_nm = Inr nearby \<and>
        current_plane_df aircraft = Inr plane_df \<longrightarrow>
        (\<forall>i n. (\<exists>t \<in> set threats. threat_id t = i \<and> risk_level t = n) \<longleftrightarrow>
           first_claiming g plane_df (nearby_drones_df nearby)
             (threat_levels (self_use_test_data self)) i = Some n)) \<and>
     (threats \<noteq> [] \<longrightarrow>
        (\<exists>aircraft nearby plane_df.
           current_aircraft = Some aircraft \<and>
           get_nearby_drones g self current_aircraft range_nm = Inr nearby \<and>
           current_plane_df aircraft = Inr plane_df))"
proof (cases "threats = []")
  case True
  have "first_claiming g plane_df (nearby_drones_df nearby)
          (threat_levels (self_use_test_data self)) i = None"
    if a: "current_aircraft = Some aircraft"
      and n: "get_nearby_drones g self current_aircraft range_nm = Inr nearby"
      and p: "current_plane_df aircraft = Inr plane_df"
    for aircraft nearby plane_df i
  proof (cases "nearby = []")
    case True
    then show ?thesis by (simp add: first_claiming_no_rows nearby_drones_df_def)
  next
    case False
    with n a have ne: "\<not> (df_empty (self_drones_df self) \<or> aircraft = [])"
      by (auto simp: get_nearby_drones_def)
    from assms a n p ne False obtain scanned where
      sc: "scan_levels g aircraft nearby plane_df (nearby_drones_df nearby)
             (threat_levels (self_use_test_data self)) [] = Inr scanned"
      and st: "sort_threats scanned = Inr threats"
      by (cases "row_item aircraft ''callsign''";
          cases "scan_levels g aircraft nearby plane_df (nearby_drones_df nearby)
             (threat_levels (self_use_test_data self)) []")
         (auto simp: get_collision_threats_def)
    from scan_levels_Inr [OF sc] have d: "distinct (map threat_id scanned)"
      and t: "\<And>i. tier_of scanned i =
          first_claiming g plane_df (nearby_drones_df nearby)
            (threat_levels (self_use_test_data self)) i"
      by simp_all
    from sort_threats_tiers [OF st d] True have "tier_of scanned = tier_of []" by simp
    then show ?thesis using t [of i] by simp
  qed
  with True show ?thesis by auto
next
  case False
  from assms False obtain aircraft where a: "current_aircraft = Some aircraft"
    by (cases current_aircraft) (auto simp: get_collision_threats_def)
  from assms False a have ne: "\<not> (df_empty (self_drones_df self) \<or> aircraft = [])"
    by (auto simp: get_collision_threats_def)
  from assms False a ne obtain nearby where
    n: "get_nearby_drones g self current_aircraft range_nm = Inr nearby"
    by (cases "row_item aircraft ''callsign''";
        cases "get_nearby_drones g self current_aircraft range_nm")
       (auto simp: get_collision_threats_def)
  from assms False a ne n have nn: "nearby \<noteq> []"
    by (cases "row_item aircraft ''callsign''") (auto simp: get_collision_threats_def)
  from assms False a ne n nn obtain plane_df where p: "current_plane_df aircraft = Inr plane_df"
    by (cases "row_item aircraft ''callsign''"; cases "current_plane_df aircraft")
       (auto simp: get_collision_threats_def)
  from assms a ne n nn p obtain scanned where
    sc: "scan_levels g aircraft nearby plane_df (nearby_drones_df nearby)
           (threat_levels (self_use_test_data self)) [] = Inr scanned"
    and st: "sort_threats scanned = Inr threats"
    by (cases "row_item aircraft ''callsign''";
        cases "scan_levels g aircraft nearby plane_df (nearby_drones_df nearby)
           (threat_levels (self_use_test_data self)) []")
       (auto simp: get_collision_threats_def)
  from scan_levels_Inr [OF sc] have d: "distinct (map threat_id scanned)"
    and t: "\<And>i. tier_of scanned i =
        first_claiming g plane_df (nearby_drones_df nearby)
          (threat_levels (self_use_test_data self)) i"
    by simp_all
  from sort_threats_tiers [OF st d] have d': "distinct (map threat_id threats)"
    and t': "tier_of threats = tier_of scanned"
    by simp_all
  have iff: "(\<exists>t \<in> set threats. threat_id t = i \<and> risk_level t = n) \<longleftrightarrow>
      first_claiming g plane_df (nearby_drones_df nearby)
        (threat_levels (self_use_test_data self)) i = Some n" for i n
    using tier_of_Some_iff [OF d', of i n] t [of i] t' by simp
  show ?thesis
    using d' a n p iff by auto
qed

theorem tier_exclusive_witness:
  "\<exists>threats.
     get_collision_threats grid_geodesic test_service (Some own_aircraft) (Fin 10) = Inr threats \<and>
     map (\<lambda>t. (threat_id t, risk_level t)) threats =
       [(Str ''DRONE_1'', ''critical''), (Str ''DRONE_2'', ''low'')] \<and>
     distinct (map threat_id threats) \<and>
     first_claiming grid_geodesic own_plane_df (nearby_drones_df test_nearby)
       (threat_levels True) (Str ''DRONE_1'') = Some ''critical'' \<and>
     claimed grid_geodesic own_plane_df (nearby_drones_df test_nearby)
       \<lparr>level_name = ''low'', level_h_threshold = Fin 1, level_v_threshold = Fin 150\<rparr>
       (Str ''DRONE_1'')"
proof -
  from threats_test obtain t1 t2 where
    run: "get_collision_threats grid_geodesic test_service (Some own_aircraft) (Fin 10) =
       Inr [t1, t2]"
    and ids: "threat_id t1 = Str ''DRONE_1''" "risk_level t1 = ''critical''"
      "threat_id t2 = Str ''DRONE_2''" "risk_level t2 = ''low''"
    by auto
  note th = tier_exclusive [OF run]
  from th have d: "distinct (map threat_id [t1, t2])" by (rule conjunct1)
  from th nearby_test own_plane_df_eq have
    "(\<exists>t \<in> set [t1, t2]. threat_id t = Str ''DRONE_1'' \<and> risk_level t = ''critical'') \<longleftrightarrow>
       first_claiming grid_geodesic own_plane_df (nearby_drones_df test_nearby)
         (threat_levels (self_use_test_data test_service)) (Str ''DRONE_1'') = Some ''critical''"
    by blast
  then have f: "first_claiming grid_geodesic own_plane_df (nearby_drones_df test_nearby)
       (threat_levels True) (Str ''DRONE_1'') = Some ''critical''"
    using ids by (simp add: test_service_def)
  show ?thesis
    using run ids d f claimed_low_test by (intro exI [of _ "[t1, t2]"]) simp
qed

text \<open>
  C9, at a failing input. In real-data mode a drone at the aircraft's position and 150 m
  below it satisfies only the \<open>advisory\<close> tier; \<open>risk_order\<close> has no entry for that tier,
  so the final sort raises a KeyError and no threat list is returned.
\<close>

theorem advisory_sort_fails:
  "get_collision_threats grid_geodesic real_service (Some own_aircraft) (Fin 10) =
     Inl (KeyError ''advisory'')"
  by (simp add: get_collision_threats_def nearby_real)
     (simp add: real_service_def own_aircraft_def df_empty_def row_item_def current_plane_df_def
        nearby_drones_df_def threat_levels_def detect_defs make_threat_def cell_eq_def
        bearing_origin position_origin sort_threats_def sort_key_of_def risk_order_def)

end
